theory Spec2Isabelle
  imports Complex_Main
begin

section \<open>Data model (src/types.ts)\<close>

text \<open>
  JavaScript numbers. The gesture recognizer and the audio engine are modelled in double
  precision, every rounding written out (see the section on double-precision
  arithmetic). The scalars of the logic loop (awakening progress, resonance, tide level)
  are modelled as real numbers, each operation read as the exact one. NaN is not an input
  of the model.
\<close>

datatype AppState = DISCONNECTED | AWAKENING | RESONANT

datatype GestureType = NONE | CLOSED_FIST | OPEN_PALM | POINTING | PINCH

record Landmark =
  x :: real
  y :: real
  z :: real

text \<open>The only exception the modelled code can raise: a property read on \<open>undefined\<close>.\<close>

datatype js_error = TypeError

definition bind_res :: "js_error + 'a \<Rightarrow> ('a \<Rightarrow> js_error + 'b) \<Rightarrow> js_error + 'b" where
  "bind_res r f = (case r of Inl e \<Rightarrow> Inl e | Inr v \<Rightarrow> f v)"

text \<open>Reading an array element: \<open>None\<close> is JavaScript's \<open>undefined\<close> beyond the end.\<close>

definition js_index :: "'a list \<Rightarrow> nat \<Rightarrow> 'a option" where
  "js_index xs i = (if i < length xs then Some (xs ! i) else None)"

text \<open>The expression \<open>v || 0\<close> on a number: a falsy number (zero) is replaced by zero.\<close>

definition or_zero :: "real \<Rightarrow> real" where
  "or_zero v = (if v = 0 then 0 else v)"

section \<open>Double-precision arithmetic\<close>

text \<open>
  The gesture recognizer and the audio engine decide by comparing numbers they have
  computed, so their arithmetic is modelled as the code performs it: in IEEE 754
  binary64, every operation rounded to the nearest double, ties to the even significand.
  A finite double is the real number it denotes (the two zeros are one value: no
  operation modelled here tells them apart).

  \<open>rne\<close> rounds a real to the nearest integer, ties to even. \<open>round64\<close> rounds a real
  to the nearest number with a 53-bit significand, with the spacing of the subnormal
  numbers below \<open>2^-1022\<close> and no upper bound on the exponent. A decimal literal of the
  source, such as \<open>0.08\<close>, denotes \<open>round64\<close> of its decimal value.
\<close>

definition rne :: "real \<Rightarrow> int" where
  "rne q =
     (let f = \<lfloor>q\<rfloor>; r = q - of_int f in
      if r < 1 / 2 then f
      else if r > 1 / 2 then f + 1
      else if even f then f else f + 1)"

definition round64 :: "real \<Rightarrow> real" where
  "round64 v =
     (if v = 0 then 0
      else
        let e = max \<lfloor>log 2 \<bar>v\<bar>\<rfloor> (- 1022);
            u = 2 powr (of_int (e - 52))
        in of_int (rne (v / u)) * u)"

text \<open>
  Sum, difference and product of finite doubles where the result cannot overflow (the
  audio engine computes with a level clamped to the unit interval).
\<close>

definition fadd :: "real \<Rightarrow> real \<Rightarrow> real" where
  "fadd a b = round64 (a + b)"

definition fsub :: "real \<Rightarrow> real \<Rightarrow> real" where
  "fsub a b = round64 (a - b)"

definition fmul :: "real \<Rightarrow> real \<Rightarrow> real" where
  "fmul a b = round64 (a * b)"

text \<open>
  Doubles with the infinities and NaN, for the distances of the recognizer, whose squares
  can overflow. \<open>to_double\<close> is the rounding of an exact result: what rounds to \<open>2^1024\<close>
  or beyond is an infinity.
\<close>

datatype double = Finite real | PosInf | NegInf | NaN

definition to_double :: "real \<Rightarrow> double" where
  "to_double v =
     (let r = round64 v in
      if 2 ^ 1024 \<le> r then PosInf
      else if r \<le> - (2 ^ 1024) then NegInf
      else Finite r)"

fun dadd :: "double \<Rightarrow> double \<Rightarrow> double" where
  "dadd NaN b = NaN"
| "dadd a NaN = NaN"
| "dadd PosInf NegInf = NaN"
| "dadd NegInf PosInf = NaN"
| "dadd PosInf b = PosInf"
| "dadd a PosInf = PosInf"
| "dadd NegInf b = NegInf"
| "dadd a NegInf = NegInf"
| "dadd (Finite a) (Finite b) = to_double (a + b)"

text \<open>The difference of two finite doubles.\<close>

definition dsub :: "real \<Rightarrow> real \<Rightarrow> double" where
  "dsub a b = to_double (a - b)"

text \<open>The comparison \<open><\<close>: false as soon as one side is NaN.\<close>

fun dless :: "double \<Rightarrow> double \<Rightarrow> bool" where
  "dless NaN b = False"
| "dless a NaN = False"
| "dless (Finite a) (Finite b) = (a < b)"
| "dless a NegInf = False"
| "dless NegInf b = True"
| "dless PosInf b = False"
| "dless a PosInf = True"

text \<open>
  \<open>Math.pow\<close> and \<open>Math.sqrt\<close> belong to the JavaScript engine, and the language
  standard leaves their results implementation-approximated. The recognizer therefore
  takes them as a parameter: \<open>math_pow2 v\<close> is \<open>Math.pow(v, 2)\<close>, \<open>math_sqrt v\<close> is
  \<open>Math.sqrt(v)\<close>. \<open>ieee_lib\<close> is the library that rounds both correctly.
\<close>

record MathLib =
  math_pow2 :: "double \<Rightarrow> double"
  math_sqrt :: "double \<Rightarrow> double"

fun dsquare :: "double \<Rightarrow> double" where
  "dsquare (Finite a) = to_double (a * a)"
| "dsquare PosInf = PosInf"
| "dsquare NegInf = PosInf"
| "dsquare NaN = NaN"

fun dsqrt :: "double \<Rightarrow> double" where
  "dsqrt (Finite a) = (if a < 0 then NaN else Finite (round64 (sqrt a)))"
| "dsqrt PosInf = PosInf"
| "dsqrt NegInf = NaN"
| "dsqrt NaN = NaN"

definition ieee_lib :: MathLib where
  "ieee_lib = \<lparr>math_pow2 = dsquare, math_sqrt = dsqrt\<rparr>"

section \<open>Gesture recognizer (GestureHandler in src/components/Visuals.tsx)\<close>

text \<open>
  \<open>dist\<close> reads \<open>p1.x\<close>, \<open>p2.x\<close>, ...: on an \<open>undefined\<close> point the read throws.
  The coordinates of a landmark are finite doubles.
\<close>

definition dist3 :: "MathLib \<Rightarrow> Landmark option \<Rightarrow> Landmark option \<Rightarrow> js_error + double" where
  "dist3 lib p1 p2 =
     (case p1 of
        None \<Rightarrow> Inl TypeError
      | Some a \<Rightarrow>
          (case p2 of
             None \<Rightarrow> Inl TypeError
           | Some b \<Rightarrow>
               Inr (math_sqrt lib
                      (dadd (dadd (math_pow2 lib (dsub (x a) (x b)))
                                  (math_pow2 lib (dsub (y a) (y b))))
                            (math_pow2 lib (dsub (or_zero (z a)) (or_zero (z b))))))))"

definition isCurled :: "MathLib \<Rightarrow> Landmark list \<Rightarrow> nat \<Rightarrow> nat \<Rightarrow> js_error + bool" where
  "isCurled lib landmarks tipIdx pipIdx =
     (let wrist = js_index landmarks 0 in
      bind_res (dist3 lib (js_index landmarks tipIdx) wrist) (\<lambda>dt.
      bind_res (dist3 lib (js_index landmarks pipIdx) wrist) (\<lambda>dp.
      Inr (dless dt dp))))"

definition recognizeGesture :: "MathLib \<Rightarrow> Landmark list \<Rightarrow> js_error + GestureType" where
  "recognizeGesture lib landmarks =
     bind_res (isCurled lib landmarks 8 6) (\<lambda>indexCurled.
     bind_res (isCurled lib landmarks 12 10) (\<lambda>middleCurled.
     bind_res (isCurled lib landmarks 16 14) (\<lambda>ringCurled.
     bind_res (isCurled lib landmarks 20 18) (\<lambda>pinkyCurled.
       let curledCount =
             length (filter (\<lambda>b. b) [indexCurled, middleCurled, ringCurled, pinkyCurled])
       in
       if curledCount = 4 then Inr CLOSED_FIST
       else
         bind_res (dist3 lib (js_index landmarks 4) (js_index landmarks 8)) (\<lambda>pinchGap.
           if dless pinchGap (Finite (round64 0.08)) then Inr PINCH
           else if \<not> indexCurled \<and> middleCurled \<and> ringCurled \<and> pinkyCurled
             then Inr POINTING
           else if curledCount = 0 then Inr OPEN_PALM
           else Inr NONE)))))"

text \<open>
  The two tests of the priority order as the code computes them: all four
  \<open>isCurled\<close> tests succeed; the computed distance of thumb tip and index tip is below
  the double \<open>0.08\<close>.
\<close>

definition allFourCurled :: "MathLib \<Rightarrow> Landmark list \<Rightarrow> bool" where
  "allFourCurled lib lms =
     (isCurled lib lms 8 6 = Inr True \<and> isCurled lib lms 12 10 = Inr True
      \<and> isCurled lib lms 16 14 = Inr True \<and> isCurled lib lms 20 18 = Inr True)"

definition pinchGapBelow :: "MathLib \<Rightarrow> Landmark list \<Rightarrow> bool" where
  "pinchGapBelow lib lms =
     (case dist3 lib (js_index lms 4) (js_index lms 8) of
        Inl err \<Rightarrow> False
      | Inr gap \<Rightarrow> dless gap (Finite (round64 0.08)))"

text \<open>A hand at rest in the origin, used as a concrete input.\<close>

definition origin :: Landmark where
  "origin = \<lparr>x = 0, y = 0, z = 0\<rparr>"

text \<open>
  The conditions of the priority claim in its own words, not the code's: the Euclidean
  distance of two landmarks in 3D, as a real number; a finger whose tip is closer to the
  wrist (landmark 0) than its PIP joint; index, middle, ring and pinky all curled.
\<close>

definition euclidean_distance :: "Landmark \<Rightarrow> Landmark \<Rightarrow> real" where
  "euclidean_distance a b = sqrt ((x a - x b) ^ 2 + (y a - y b) ^ 2 + (z a - z b) ^ 2)"

definition tip_closer_to_wrist :: "Landmark list \<Rightarrow> nat \<Rightarrow> nat \<Rightarrow> bool" where
  "tip_closer_to_wrist lms tip pip =
     (euclidean_distance (lms ! tip) (lms ! 0) < euclidean_distance (lms ! pip) (lms ! 0))"

definition all_four_curled :: "Landmark list \<Rightarrow> bool" where
  "all_four_curled lms =
     (tip_closer_to_wrist lms 8 6 \<and> tip_closer_to_wrist lms 12 10
      \<and> tip_closer_to_wrist lms 16 14 \<and> tip_closer_to_wrist lms 20 18)"

text \<open>
  Concrete hands on the \<open>x\<close> axis. In \<open>fist_hand\<close> the four PIP joints (6, 10, 14, 18)
  are at distance 2 from the wrist and every tip is on the wrist. In
  \<open>pointing_pinch_hand\<close> the index tip (8) is stretched out to distance 3 and the thumb
  tip (4) touches it. In \<open>rounding_hand\<close> the wrist is at \<open>-1\<close>, the four tips at
  \<open>2^-60\<close>, the four PIP joints at \<open>2^-59\<close> and the thumb tip at 5: every tip is
  closer to the wrist than its PIP joint, by less than the spacing of the doubles near 1.
\<close>

definition pt :: "real \<Rightarrow> Landmark" where
  "pt a = \<lparr>x = a, y = 0, z = 0\<rparr>"

definition fist_hand :: "Landmark list" where
  "fist_hand =
     [pt 0, pt 0, pt 0, pt 0, pt 0,
      pt 0, pt 2, pt 0, pt 0,
      pt 0, pt 2, pt 0, pt 0,
      pt 0, pt 2, pt 0, pt 0,
      pt 0, pt 2, pt 0, pt 0]"

definition pointing_pinch_hand :: "Landmark list" where
  "pointing_pinch_hand =
     [pt 0, pt 0, pt 0, pt 0, pt 3,
      pt 0, pt 2, pt 0, pt 3,
      pt 0, pt 2, pt 0, pt 0,
      pt 0, pt 2, pt 0, pt 0,
      pt 0, pt 2, pt 0, pt 0]"

definition rounding_hand :: "Landmark list" where
  "rounding_hand =
     [pt (- 1), pt 0, pt 0, pt 0, pt 5,
      pt 0, pt (1 / 2 ^ 59), pt 0, pt (1 / 2 ^ 60),
      pt 0, pt (1 / 2 ^ 59), pt 0, pt (1 / 2 ^ 60),
      pt 0, pt (1 / 2 ^ 59), pt 0, pt (1 / 2 ^ 60),
      pt 0, pt (1 / 2 ^ 59), pt 0, pt (1 / 2 ^ 60)]"

section \<open>Application state and logic loop (App component, src/unnamed/part_001)\<close>

text \<open>
  The React state of \<open>App\<close> that the logic loop and the handlers read or write.
  The constant state (heart rate, moon phase, season) is left out: nothing writes it.
\<close>

record App =
  appState :: AppState
  currentGesture :: GestureType
  handPos :: "real \<times> real"
  landmarks :: "Landmark list"
  resonance :: real
  awakenProgress :: real
  cameraEnabled :: bool
  showIntro :: bool
  tideLevel :: real

definition App_initial :: App where
  "App_initial =
     \<lparr>appState = DISCONNECTED, currentGesture = NONE, handPos = (0.5, 0.5), landmarks = [],
      resonance = 0, awakenProgress = 0, cameraEnabled = False, showIntro = True,
      tideLevel = 0.5\<rparr>"

text \<open>
  The local \<open>targetResonance\<close> of the loop: the base level, overwritten by four
  successive \<open>if\<close> statements.
\<close>

definition targetResonance :: "GestureType \<Rightarrow> real" where
  "targetResonance g =
     (let t0 = 0.2;
          t1 = (if g = OPEN_PALM then 0.8 else t0);
          t2 = (if g = PINCH then 0.5 else t1);
          t3 = (if g = CLOSED_FIST then 0.1 else t2);
          t4 = (if g = POINTING then 0.3 else t3)
      in t4)"

text \<open>
  One run of \<open>loop\<close>, a frame. The conditions and the argument of
  \<open>audioService.setResonance\<close> read the values the closure captured (the state before
  the frame); the functional updaters (\<open>prev => ...\<close>) are applied to the state. The
  result is the new state and the argument of the frame's single call of
  \<open>audioService.setResonance\<close>. \<open>now\<close> is \<open>Date.now()\<close>.
\<close>

definition loop :: "real \<Rightarrow> App \<Rightarrow> App \<times> real" where
  "loop now s =
     (let tide = (sin (now / 4000) + 1) / 2;
          s1 = s\<lparr>tideLevel := tide\<rparr>;
          s2 = (if appState s = AWAKENING
                then (let next = awakenProgress s1 + 0.005 in
                      if next \<ge> 1 then s1\<lparr>appState := RESONANT, awakenProgress := 1\<rparr>
                      else s1\<lparr>awakenProgress := next\<rparr>)
                else s1);
          s3 = (if appState s = RESONANT
                then s2\<lparr>resonance :=
                        resonance s2 + (targetResonance (currentGesture s) - resonance s2) * 0.05\<rparr>
                else s2)
      in (s3, if appState s = RESONANT then resonance s else awakenProgress s))"

definition startExperience :: "App \<Rightarrow> App" where
  "startExperience s = s\<lparr>cameraEnabled := True, appState := AWAKENING, showIntro := False\<rparr>"

definition handleGestureChange ::
  "GestureType \<Rightarrow> real \<times> real \<times> real \<Rightarrow> Landmark list \<Rightarrow> App \<Rightarrow> App" where
  "handleGestureChange gesture pos landmarksData s =
     (case pos of (posx, posy, posz) \<Rightarrow>
        s\<lparr>currentGesture := gesture,
          handPos := (fst (handPos s) + (posx - fst (handPos s)) * 0.2,
                      snd (handPos s) + (posy - snd (handPos s)) * 0.2),
          landmarks := landmarksData\<rparr>)"

text \<open>
  What can happen to the application: a frame of the loop, a click on the button
  "Initiate Link" (rendered, with its handler \<open>startExperience\<close>, only while
  \<open>showIntro\<close> holds), and a report of the gesture sensor.
\<close>

datatype event =
    Frame real
  | InitiateLink
  | GestureChange GestureType "real \<times> real \<times> real" "Landmark list"

fun dispatch :: "App \<Rightarrow> event \<Rightarrow> App" where
  "dispatch s (Frame now) = fst (loop now s)"
| "dispatch s InitiateLink = (if showIntro s then startExperience s else s)"
| "dispatch s (GestureChange g pos lms) = handleGestureChange g pos lms s"

definition run :: "event list \<Rightarrow> App" where
  "run es = foldl dispatch App_initial es"

text \<open>The position of a state in the order disconnected, awakening, resonant.\<close>

fun rank :: "AppState \<Rightarrow> nat" where
  "rank DISCONNECTED = 0"
| "rank AWAKENING = 1"
| "rank RESONANT = 2"

text \<open>The events that run the loop, and how many of them a trace holds.\<close>

fun isFrame :: "event \<Rightarrow> bool" where
  "isFrame (Frame now) = True"
| "isFrame InitiateLink = False"
| "isFrame (GestureChange g pos lms) = False"

definition frameCount :: "event list \<Rightarrow> nat" where
  "frameCount es = length (filter isFrame es)"

text \<open>
  What holds of every state the application reaches: the intro overlay (and with it the
  button) is shown exactly in the disconnected state, and both scalars are in the unit
  interval.
\<close>

definition App_inv :: "App \<Rightarrow> bool" where
  "App_inv s =
     ((showIntro s \<longleftrightarrow> appState s = DISCONNECTED)
      \<and> 0 \<le> resonance s \<and> resonance s \<le> 1
      \<and> 0 \<le> awakenProgress s \<and> awakenProgress s \<le> 1)"

text \<open>Concrete states: a resonant one with an open palm, and the second awakening frame.\<close>

definition resonant_open_palm :: App where
  "resonant_open_palm =
     App_initial\<lparr>appState := RESONANT, currentGesture := OPEN_PALM, showIntro := False\<rparr>"

definition second_frame :: App where
  "second_frame = fst (loop 0 (startExperience App_initial))"

section \<open>Audio engine (src/services/audioService.ts)\<close>

text \<open>
  An \<open>AudioParam\<close> is its \<open>value\<close> and the automation calls made on it, in order. The
  numbers are doubles: a decimal literal is \<open>round64\<close> of its value, an operation is
  \<open>fadd\<close>, \<open>fsub\<close> or \<open>fmul\<close>. The
  audio graph itself (oscillators, noise buffer, panners, connections) is not modelled:
  the engine never reads it back. Of \<open>CHAKRA_DATA\<close> (src/unnamed/part_000) the engine
  reads the frequency and the number of entries.
\<close>

datatype automation =
    SetTargetAtTime real real real
  | SetValueAtTime real real
  | ExponentialRampToValueAtTime real real
  | CancelScheduledValues real

record AudioParam =
  param_value :: real
  automations :: "automation list"

definition param :: "real \<Rightarrow> AudioParam" where
  "param v = \<lparr>param_value = v, automations = []\<rparr>"

definition setTargetAtTime :: "real \<Rightarrow> real \<Rightarrow> real \<Rightarrow> AudioParam \<Rightarrow> AudioParam" where
  "setTargetAtTime target startTime timeConstant p =
     p\<lparr>automations := automations p @ [SetTargetAtTime target startTime timeConstant]\<rparr>"

text \<open>The target a parameter is heading for: that of its latest automation call.\<close>

fun target_of :: "automation \<Rightarrow> real option" where
  "target_of (SetTargetAtTime v st tc) = Some v"
| "target_of (SetValueAtTime v st) = None"
| "target_of (ExponentialRampToValueAtTime v et) = None"
| "target_of (CancelScheduledValues ct) = None"

definition scheduledTarget :: "AudioParam \<Rightarrow> real option" where
  "scheduledTarget p =
     (case rev (automations p) of [] \<Rightarrow> None | a # earlier \<Rightarrow> target_of a)"

text \<open>
  The browser's \<open>AudioContext\<close>: its state and clock belong to the browser; a call of
  \<open>resume()\<close> is counted, its outcome is the browser's.
\<close>

datatype AudioContextState = Suspended | Running | Closed

record AudioContext =
  ctxState :: AudioContextState
  currentTime :: real
  resumeCalls :: nat

record GainNode =
  gain :: AudioParam

record BiquadFilterNode =
  frequency :: AudioParam
  Q :: AudioParam

record AudioEngine =
  ctx :: "AudioContext option"
  masterGain :: "GainNode option"
  tideGain :: "GainNode option"
  tideFilter :: "BiquadFilterNode option"
  droneGain :: "GainNode option"
  chakraOscs :: "real list"
  chakraGains :: "GainNode list"
  isMuted :: bool

definition AudioEngine_new :: AudioEngine where
  "AudioEngine_new =
     \<lparr>ctx = None, masterGain = None, tideGain = None, tideFilter = None, droneGain = None,
      chakraOscs = [], chakraGains = [], isMuted = False\<rparr>"

definition CHAKRA_DATA :: "(string \<times> real) list" where
  "CHAKRA_DATA =
     [(''Root'', 396), (''Sacral'', 417), (''Solar Plexus'', 528), (''Heart'', 639),
      (''Throat'', 741), (''Third Eye'', 852), (''Crown'', 963)]"

definition createGain :: "real \<Rightarrow> GainNode" where
  "createGain v = \<lparr>gain = param v\<rparr>"

definition setupDrone :: "AudioEngine \<Rightarrow> AudioEngine" where
  "setupDrone e =
     (if ctx e = None \<or> masterGain e = None then e
      else e\<lparr>droneGain := Some (createGain (round64 0.1))\<rparr>)"

definition setupTides :: "AudioEngine \<Rightarrow> AudioEngine" where
  "setupTides e =
     (if ctx e = None \<or> masterGain e = None then e
      else e\<lparr>tideFilter := Some \<lparr>frequency = param 300, Q = param (round64 0.7)\<rparr>,
             tideGain := Some (createGain (round64 0.15))\<rparr>)"

definition setupChakras :: "AudioEngine \<Rightarrow> AudioEngine" where
  "setupChakras e =
     (if ctx e = None \<or> masterGain e = None then e
      else foldl (\<lambda>acc chakra.
                    acc\<lparr>chakraOscs := chakraOscs acc @ [snd chakra],
                        chakraGains := chakraGains acc @ [createGain 0]\<rparr>)
             e CHAKRA_DATA)"

text \<open>\<open>init\<close>: \<open>fresh\<close> is the context that \<open>new AudioContextClass()\<close> returns.\<close>

definition init :: "AudioContext \<Rightarrow> AudioEngine \<Rightarrow> AudioEngine" where
  "init fresh e =
     (case ctx e of
        Some c \<Rightarrow> e
      | None \<Rightarrow>
          setupChakras (setupTides (setupDrone
            (e\<lparr>ctx := Some fresh, masterGain := Some (createGain (round64 0.8))\<rparr>))))"

definition ctx_resume :: "AudioContext \<Rightarrow> AudioContext" where
  "ctx_resume c = c\<lparr>resumeCalls := Suc (resumeCalls c)\<rparr>"

definition resume :: "AudioEngine \<Rightarrow> AudioEngine" where
  "resume e =
     (case ctx e of
        None \<Rightarrow> e
      | Some c \<Rightarrow> if ctxState c = Suspended then e\<lparr>ctx := Some (ctx_resume c)\<rparr> else e)"

text \<open>
  The volume of chakra \<open>i\<close> when it sounds (the local \<open>baseVol\<close> of \<open>setResonance\<close>):
  three double operations.
\<close>

definition baseVol :: "nat \<Rightarrow> real" where
  "baseVol i = fmul (round64 0.12) (fsub 1 (fmul (real i) (round64 0.1)))"

definition setResonance :: "real \<Rightarrow> AudioEngine \<Rightarrow> AudioEngine" where
  "setResonance level e =
     (case ctx e of
        None \<Rightarrow> e
      | Some c \<Rightarrow>
          if isMuted e then e
          else
            let c1 = (if ctxState c = Suspended then ctx_resume c else c);
                e0 = e\<lparr>ctx := Some c1\<rparr>;
                t = currentTime c1;
                clampedLevel = max 0 (min 1 level);
                e1 = (case tideGain e0 of
                        None \<Rightarrow> e0
                      | Some tg \<Rightarrow>
                          (case tideFilter e0 of
                             None \<Rightarrow> e0
                           | Some tf \<Rightarrow>
                               let targetGain = fadd (round64 0.15) (fmul clampedLevel (round64 0.45));
                                   targetFreq = fadd 300 (fmul clampedLevel 1200)
                               in e0\<lparr>tideGain :=
                                        Some (tg\<lparr>gain := setTargetAtTime targetGain t (round64 0.2)
                                                            (gain tg)\<rparr>),
                                      tideFilter :=
                                        Some (tf\<lparr>frequency :=
                                                setTargetAtTime targetFreq t (round64 0.2)
                                                  (frequency tf)\<rparr>)\<rparr>));
                activeIndex = fmul clampedLevel 7
            in e1\<lparr>chakraGains :=
                     map (\<lambda>(i, g).
                            if real i \<le> activeIndex \<and> clampedLevel > round64 0.05
                            then g\<lparr>gain := setTargetAtTime (baseVol i) t (round64 0.5) (gain g)\<rparr>
                            else g\<lparr>gain := setTargetAtTime 0 t (round64 0.3) (gain g)\<rparr>)
                         (enumerate 0 (chakraGains e1))\<rparr>)"

text \<open>
  \<open>triggerTone\<close>: an index that is negative, fractional or beyond the array reads
  \<open>undefined\<close>, and the method returns; the integer indices are modelled.
\<close>

definition triggerTone :: "int \<Rightarrow> AudioEngine \<Rightarrow> AudioEngine" where
  "triggerTone index e =
     (case ctx e of
        None \<Rightarrow> e
      | Some c \<Rightarrow>
          if 0 \<le> index \<and> nat index < length (chakraGains e)
          then
            let g = chakraGains e ! nat index;
                t = currentTime c;
                p = gain g;
                p' = p\<lparr>automations := automations p @
                        [CancelScheduledValues t, SetValueAtTime (round64 0.2) t,
                         ExponentialRampToValueAtTime (round64 0.001) (fadd t 2)]\<rparr>
            in e\<lparr>chakraGains := (chakraGains e)[nat index := g\<lparr>gain := p'\<rparr>]\<rparr>
          else e)"

text \<open>
  \<open>toggleMute\<close> writes the flag first; with a master gain and no context the read of
  \<open>this.ctx!.currentTime\<close> would throw.
\<close>

definition toggleMute :: "AudioEngine \<Rightarrow> js_error + AudioEngine" where
  "toggleMute e =
     (let e1 = e\<lparr>isMuted := \<not> isMuted e\<rparr> in
      case masterGain e1 of
        None \<Rightarrow> Inr e1
      | Some mg \<Rightarrow>
          (case ctx e1 of
             None \<Rightarrow> Inl TypeError
           | Some c \<Rightarrow>
               Inr (e1\<lparr>masterGain :=
                         Some (mg\<lparr>gain := setTargetAtTime (if isMuted e1 then 0 else round64 0.8)
                                              (currentTime c) (round64 0.2) (gain mg)\<rparr>)\<rparr>)))"

text \<open>
  The public methods as operations on the engine, and \<open>Browser\<close>: the browser moving the
  context's state and clock. After a throwing \<open>toggleMute\<close> the engine keeps the flag it
  had already written.
\<close>

datatype audio_op =
    Init AudioContext
  | Resume
  | SetResonance real
  | TriggerTone int
  | ToggleMute
  | Browser AudioContextState real

fun audio_step :: "AudioEngine \<Rightarrow> audio_op \<Rightarrow> AudioEngine" where
  "audio_step e (Init fresh) = init fresh e"
| "audio_step e Resume = resume e"
| "audio_step e (SetResonance level) = setResonance level e"
| "audio_step e (TriggerTone index) = triggerTone index e"
| "audio_step e ToggleMute =
     (case toggleMute e of Inr e' \<Rightarrow> e' | Inl err \<Rightarrow> e\<lparr>isMuted := \<not> isMuted e\<rparr>)"
| "audio_step e (Browser st t) =
     (case ctx e of
        None \<Rightarrow> e
      | Some c \<Rightarrow> e\<lparr>ctx := Some (c\<lparr>ctxState := st, currentTime := t\<rparr>)\<rparr>)"

definition audio_run :: "audio_op list \<Rightarrow> AudioEngine" where
  "audio_run ops = foldl audio_step AudioEngine_new ops"

definition suspended_context :: AudioContext where
  "suspended_context = \<lparr>ctxState = Suspended, currentTime = 0, resumeCalls = 0\<rparr>"

text \<open>
  Two levels at a boundary: the double \<open>0.42857142857142855\<close>, the nearest below 3/7,
  and the double \<open>0.05\<close>.
\<close>

definition level_below_3_7 :: real where
  "level_below_3_7 = 7720456504063707 / 2 ^ 54"

definition level_double_0_05 :: real where
  "level_double_0_05 = 3602879701896397 / 2 ^ 56"

text \<open>What holds of every engine the operations reach.\<close>

definition AudioEngine_inv :: "AudioEngine \<Rightarrow> bool" where
  "AudioEngine_inv e =
     ((ctx e = None \<longrightarrow> chakraGains e = [])
      \<and> (ctx e \<noteq> None \<longrightarrow>
            tideGain e \<noteq> None \<and> tideFilter e \<noteq> None \<and> masterGain e \<noteq> None
          \<and> length (chakraGains e) = 7))"

text \<open>
  A frame as the two consumers see it: the loop updates the application state and hands
  its level to the audio engine.
\<close>

definition frame :: "real \<Rightarrow> App \<times> AudioEngine \<Rightarrow> App \<times> AudioEngine" where
  "frame now w = (fst (loop now (fst w)), setResonance (snd (loop now (fst w))) (snd w))"

section \<open>Gesture sensor: camera and animation frames (GestureHandler)\<close>

text \<open>
  A \<open>MediaStream\<close> is the list of its tracks, a track a number. \<open>videoNode\<close> is the
  \<open>video\<close> element the component renders; \<open>videoRefAttached\<close> tells whether
  \<open>videoRef.current\<close> refers to it or is \<open>null\<close> (the ref is created as \<open>null\<close>, and the
  code tests it before each use). \<open>stoppedTracks\<close> are the tracks \<open>stop()\<close> was called
  on, \<open>pendingFrames\<close> the animation-frame requests neither run nor cancelled.
\<close>

record HTMLVideoElement =
  srcObject :: "nat list option"

record GestureHandler =
  videoNode :: HTMLVideoElement
  videoRefAttached :: bool
  landmarkerRef :: bool
  requestRef :: "nat option"
  stoppedTracks :: "nat set"
  pendingFrames :: "nat set"

definition GestureHandler_mounted :: GestureHandler where
  "GestureHandler_mounted =
     \<lparr>videoNode = \<lparr>srcObject = None\<rparr>, videoRefAttached = True, landmarkerRef = False,
      requestRef = None, stoppedTracks = {}, pendingFrames = {}\<rparr>"

definition landmarkerLoaded :: "GestureHandler \<Rightarrow> GestureHandler" where
  "landmarkerLoaded s = s\<lparr>landmarkerRef := True\<rparr>"

text \<open>
  \<open>startCamera\<close>, with the outcome of \<open>getUserMedia\<close>: \<open>None\<close> when it rejects (the
  \<open>catch\<close> only warns). The stream is stored nowhere but in the element's
  \<open>srcObject\<close>. The \<open>loadeddata\<close> listener it registers starts \<open>predictWebcam\<close>.
\<close>

definition startCamera :: "nat list option \<Rightarrow> GestureHandler \<Rightarrow> GestureHandler" where
  "startCamera granted s =
     (if \<not> videoRefAttached s then s
      else (case granted of
              None \<Rightarrow> s
            | Some stream \<Rightarrow> s\<lparr>videoNode := (videoNode s)\<lparr>srcObject := Some stream\<rparr>\<rparr>))"

text \<open>
  The bookkeeping of one run of \<open>predictWebcam\<close>. It runs either as the \<open>loadeddata\<close>
  listener or as the callback of an animation-frame request; in the second case the
  browser has taken that request off its list before the call. \<open>handle\<close> is what the
  run's own \<open>requestAnimationFrame\<close> returns. (The detection itself is the
  \<open>GestureChange\<close> event of the application.)
\<close>

datatype trigger = LoadedData | FrameCallback nat

definition predictWebcam :: "trigger \<Rightarrow> nat \<Rightarrow> GestureHandler \<Rightarrow> GestureHandler" where
  "predictWebcam trig handle s =
     (let s0 = (case trig of
                  LoadedData \<Rightarrow> s
                | FrameCallback fired \<Rightarrow> s\<lparr>pendingFrames := pendingFrames s - {fired}\<rparr>)
      in if \<not> landmarkerRef s0 \<or> \<not> videoRefAttached s0 then s0
         else s0\<lparr>requestRef := Some handle,
                 pendingFrames := insert handle (pendingFrames s0)\<rparr>)"

text \<open>The function the effect returns.\<close>

definition cleanup :: "GestureHandler \<Rightarrow> GestureHandler" where
  "cleanup s =
     (let s1 = (if videoRefAttached s
                then (case srcObject (videoNode s) of
                        None \<Rightarrow> s
                      | Some stream \<Rightarrow>
                          foldl (\<lambda>acc track. acc\<lparr>stoppedTracks := insert track (stoppedTracks acc)\<rparr>)
                            s stream)
                else s)
      in (case requestRef s1 of
            None \<Rightarrow> s1
          | Some handle \<Rightarrow> s1\<lparr>pendingFrames := pendingFrames s1 - {handle}\<rparr>))"

text \<open>
  The two ways gesture sensing ends. When \<open>videoEnabled\<close> becomes false the component
  stays mounted and React runs the cleanup with the ref still attached. When the
  component unmounts, React first resets the ref of the removed \<open>video\<close> element to
  \<open>null\<close> and runs the cleanup of the effect afterwards.
\<close>

definition disableVideo :: "GestureHandler \<Rightarrow> GestureHandler" where
  "disableVideo s = cleanup s"

definition unmount :: "GestureHandler \<Rightarrow> GestureHandler" where
  "unmount s = cleanup (s\<lparr>videoRefAttached := False\<rparr>)"

text \<open>
  A sensor at work: the landmarker is loaded, the camera has granted a stream of two
  tracks, \<open>loadeddata\<close> has started the prediction (request 1), whose callback has run
  and requested frame 2.
\<close>

definition sensing :: GestureHandler where
  "sensing =
     predictWebcam (FrameCallback 1) 2
       (predictWebcam LoadedData 1
          (startCamera (Some [0, 1]) (landmarkerLoaded GestureHandler_mounted)))"

section \<open>Properties of the double-precision arithmetic\<close>

text \<open>
  Rounding a number whose binade \<open>[2^e, 2^(e+1))\<close> is known: the significand is rounded
  at the spacing \<open>2^(e-52)\<close>.
\<close>

lemma round64_eval:
  fixes e :: int
  assumes "2 powr (of_int e) \<le> \<bar>v\<bar>" and "\<bar>v\<bar> < 2 powr (of_int (e + 1))"
    and "- 1022 \<le> e"
  shows "round64 v = of_int (rne (v / 2 powr (of_int (e - 52)))) * 2 powr (of_int (e - 52))"
proof -
  have "0 < (2::real) powr (of_int e)" by simp
  with assms(1) have pos: "0 < \<bar>v\<bar>" by linarith
  then have nz: "v \<noteq> 0" by auto
  have "\<lfloor>log 2 \<bar>v\<bar>\<rfloor> = e"
    using assms(1,2) pos by (simp add: floor_log_eq_powr_iff)
  with nz assms(3) show ?thesis by (simp add: round64_def Let_def max_def)
qed

lemmas round64_simps = rne_def Let_def powr_minus powr_numeral

lemma round64_0: "round64 0 = 0"
  by (simp add: round64_def)

lemma round64_1: "round64 1 = 1"
  using round64_eval [of 0 1] by (simp add: round64_simps)

lemma round64_2: "round64 2 = 2"
  using round64_eval [of 1 2] by (simp add: round64_simps)

lemma round64_3: "round64 3 = 3"
  using round64_eval [of 1 3] by (simp add: round64_simps)

lemma round64_4: "round64 4 = 4"
  using round64_eval [of 2 4] by (simp add: round64_simps)

lemma round64_5: "round64 5 = 5"
  using round64_eval [of 2 5] by (simp add: round64_simps)

lemma round64_9: "round64 9 = 9"
  using round64_eval [of 3 9] by (simp add: round64_simps)

lemma round64_25: "round64 25 = 25"
  using round64_eval [of 4 25] by (simp add: round64_simps)

text \<open>The doubles that the decimal literals of the two modules denote.\<close>

lemma double_0_08: "round64 0.08 = 5764607523034235 / 2 ^ 56"
  using round64_eval [of "- 4" "0.08"] by (simp add: round64_simps)

lemma double_0_05: "round64 0.05 = 3602879701896397 / 2 ^ 56"
  using round64_eval [of "- 5" "0.05"] by (simp add: round64_simps)

lemma double_0_1: "round64 0.1 = 3602879701896397 / 2 ^ 55"
  using round64_eval [of "- 4" "0.1"] by (simp add: round64_simps)

lemma double_0_12: "round64 0.12 = 1080863910568919 / 2 ^ 53"
  using round64_eval [of "- 4" "0.12"] by (simp add: round64_simps)

text \<open>Sums that are not doubles: the three differences of \<open>rounding_hand\<close>.\<close>

lemma round64_tip: "round64 (1 / 2 ^ 60 - - 1) = 1"
  using round64_eval [of 0 "1 / 2 ^ 60 - - 1"] by (simp add: round64_simps)

lemma round64_pip: "round64 (1 / 2 ^ 59 - - 1) = 1"
  using round64_eval [of 0 "1 / 2 ^ 59 - - 1"] by (simp add: round64_simps)

lemma round64_thumb: "round64 (5 - 1 / 2 ^ 60) = 5"
  using round64_eval [of 2 "5 - 1 / 2 ^ 60"] by (simp add: round64_simps)

lemma to_double_small:
  assumes "\<bar>round64 v\<bar> \<le> 2 ^ 10"
  shows "to_double v = Finite (round64 v)"
proof -
  have "(2::real) ^ 10 < 2 ^ 1024" by (rule power_strict_increasing) simp_all
  with assms have "round64 v < 2 ^ 1024" and "- (2 ^ 1024) < round64 v" by linarith+
  then show ?thesis by (simp add: to_double_def Let_def)
qed

lemma dless_irrefl: "\<not> dless d d"
  by (cases d) simp_all

section \<open>Properties of the gesture recognizer\<close>

lemma isCurled_total:
  assumes "21 \<le> length lms" and "tipIdx \<le> 20" and "pipIdx \<le> 20"
  shows "\<exists>b. isCurled lib lms tipIdx pipIdx = Inr b"
  using assms by (auto simp: isCurled_def js_index_def dist3_def bind_res_def Let_def)

lemma dist3_total:
  assumes "21 \<le> length lms" and "i \<le> 20" and "j \<le> 20"
  shows "\<exists>d. dist3 lib (js_index lms i) (js_index lms j) = Inr d"
  using assms by (simp add: js_index_def dist3_def)

text \<open>
  C1. For every array of 21 hand landmarks, \<open>recognizeGesture\<close> returns (without
  throwing) exactly one of the five labels NONE, CLOSED_FIST, OPEN_PALM, POINTING, PINCH,
  whatever \<open>Math.pow\<close> and \<open>Math.sqrt\<close> compute.
\<close>

theorem recognizeGesture_five_labels:
  assumes "length lms = 21"
  shows "\<exists>g. recognizeGesture lib lms = Inr g
             \<and> g \<in> {NONE, CLOSED_FIST, OPEN_PALM, POINTING, PINCH}"
proof -
  from assms have len: "21 \<le> length lms" by simp
  obtain b1 where b1: "isCurled lib lms 8 6 = Inr b1"
    using isCurled_total [OF len, of 8 6] by auto
  obtain b2 where b2: "isCurled lib lms 12 10 = Inr b2"
    using isCurled_total [OF len, of 12 10] by auto
  obtain b3 where b3: "isCurled lib lms 16 14 = Inr b3"
    using isCurled_total [OF len, of 16 14] by auto
  obtain b4 where b4: "isCurled lib lms 20 18 = Inr b4"
    using isCurled_total [OF len, of 20 18] by auto
  obtain d where d: "dist3 lib (js_index lms 4) (js_index lms 8) = Inr d"
    using dist3_total [OF len, of 4 8] by auto
  have "\<exists>g. recognizeGesture lib lms = Inr g"
    by (simp add: recognizeGesture_def b1 b2 b3 b4 d bind_res_def Let_def)
  then obtain g where "recognizeGesture lib lms = Inr g" ..
  moreover have "g \<in> {NONE, CLOSED_FIST, OPEN_PALM, POINTING, PINCH}"
    by (cases g) simp_all
  ultimately show ?thesis by blast
qed

theorem recognizeGesture_five_labels_witness:
  "length (replicate 21 origin) = 21
   \<and> (\<exists>g. recognizeGesture ieee_lib (replicate 21 origin) = Inr g
          \<and> g \<in> {NONE, CLOSED_FIST, OPEN_PALM, POINTING, PINCH})"
  using recognizeGesture_five_labels [of "replicate 21 origin" ieee_lib] by simp

text \<open>The distance of two points of the \<open>x\<close> axis, as \<open>dist\<close> computes it.\<close>

lemma dist3_pt:
  "dist3 lib (Some (pt a)) (Some (pt b)) =
     Inr (math_sqrt lib
            (dadd (dadd (math_pow2 lib (dsub a b)) (math_pow2 lib (dsub 0 0)))
                  (math_pow2 lib (dsub 0 0))))"
  by (simp add: dist3_def pt_def or_zero_def)

text \<open>
  With correctly rounded \<open>Math.pow\<close> and \<open>Math.sqrt\<close>: when the difference rounds to
  \<open>c\<close>, and \<open>c\<close> and its square are doubles, the distance is \<open>c\<close>.
\<close>

lemma dist3_axis:
  assumes diff: "round64 (a - b) = c" and nonneg: "0 \<le> c" and small: "c \<le> 32"
    and square: "round64 (c * c) = c * c" and root: "round64 c = c"
  shows "dist3 ieee_lib (Some (pt a)) (Some (pt b)) = Inr (Finite c)"
proof -
  have cc: "c * c \<le> 2 ^ 10"
  proof -
    have "c * c \<le> 32 * 32" using small nonneg by (intro mult_mono) simp_all
    then show ?thesis by simp
  qed
  have cc0: "0 \<le> c * c" using nonneg by simp
  have dx: "dsub a b = Finite c"
    using small nonneg by (simp add: dsub_def to_double_small diff)
  have dz: "dsub 0 0 = Finite 0"
    by (simp add: dsub_def to_double_small round64_0)
  have zero: "to_double 0 = Finite 0"
    by (simp add: to_double_small round64_0)
  have sum: "to_double (c * c) = Finite (c * c)"
    using cc cc0 by (simp add: to_double_small square)
  have "dist3 ieee_lib (Some (pt a)) (Some (pt b)) = Inr (dsqrt (Finite (c * c)))"
    unfolding dist3_pt dx dz by (simp add: ieee_lib_def zero sum)
  also have "dsqrt (Finite (c * c)) = Finite c"
    using nonneg cc0 by (simp add: root not_less)
  finally show ?thesis .
qed

lemma dist3_axis_0: "dist3 ieee_lib (Some (pt 0)) (Some (pt 0)) = Inr (Finite 0)"
proof (rule dist3_axis)
  show "round64 (0 - 0) = 0" by (simp add: round64_0)
qed (simp_all add: round64_0)

lemma dist3_axis_2: "dist3 ieee_lib (Some (pt 2)) (Some (pt 0)) = Inr (Finite 2)"
proof (rule dist3_axis)
  show "round64 (2 - 0) = 2" by (simp add: round64_2)
qed (simp_all add: round64_2 round64_4)

lemma dist3_axis_3: "dist3 ieee_lib (Some (pt 3)) (Some (pt 0)) = Inr (Finite 3)"
proof (rule dist3_axis)
  show "round64 (3 - 0) = 3" by (simp add: round64_3)
qed (simp_all add: round64_3 round64_9)

lemma dist3_axis_33: "dist3 ieee_lib (Some (pt 3)) (Some (pt 3)) = Inr (Finite 0)"
proof (rule dist3_axis)
  show "round64 (3 - 3) = 0" by (simp add: round64_0)
qed (simp_all add: round64_0)

lemma dist3_axis_thumb:
  "dist3 ieee_lib (Some (pt 5)) (Some (pt (1 / 2 ^ 60))) = Inr (Finite 5)"
  by (rule dist3_axis [OF round64_thumb]) (simp_all add: round64_5 round64_25)

text \<open>The thresholds of the pinch test on the distances above.\<close>

lemma pinch_threshold:
  "dless (Finite 0) (Finite (round64 0.08))" "\<not> dless (Finite 5) (Finite (round64 0.08))"
  unfolding double_0_08 by simp_all

lemma fist_hand_index:
  "js_index fist_hand 0 = Some (pt 0)" "js_index fist_hand 4 = Some (pt 0)"
  "js_index fist_hand 6 = Some (pt 2)" "js_index fist_hand 8 = Some (pt 0)"
  "js_index fist_hand 10 = Some (pt 2)" "js_index fist_hand 12 = Some (pt 0)"
  "js_index fist_hand 14 = Some (pt 2)" "js_index fist_hand 16 = Some (pt 0)"
  "js_index fist_hand 18 = Some (pt 2)" "js_index fist_hand 20 = Some (pt 0)"
  by (simp_all add: fist_hand_def js_index_def)

lemma pointing_pinch_hand_index:
  "js_index pointing_pinch_hand 0 = Some (pt 0)" "js_index pointing_pinch_hand 4 = Some (pt 3)"
  "js_index pointing_pinch_hand 6 = Some (pt 2)" "js_index pointing_pinch_hand 8 = Some (pt 3)"
  "js_index pointing_pinch_hand 10 = Some (pt 2)" "js_index pointing_pinch_hand 12 = Some (pt 0)"
  "js_index pointing_pinch_hand 14 = Some (pt 2)" "js_index pointing_pinch_hand 16 = Some (pt 0)"
  "js_index pointing_pinch_hand 18 = Some (pt 2)" "js_index pointing_pinch_hand 20 = Some (pt 0)"
  by (simp_all add: pointing_pinch_hand_def js_index_def)

lemma rounding_hand_index:
  "js_index rounding_hand 0 = Some (pt (- 1))" "js_index rounding_hand 4 = Some (pt 5)"
  "js_index rounding_hand 6 = Some (pt (1 / 2 ^ 59))"
  "js_index rounding_hand 8 = Some (pt (1 / 2 ^ 60))"
  "js_index rounding_hand 10 = Some (pt (1 / 2 ^ 59))"
  "js_index rounding_hand 12 = Some (pt (1 / 2 ^ 60))"
  "js_index rounding_hand 14 = Some (pt (1 / 2 ^ 59))"
  "js_index rounding_hand 16 = Some (pt (1 / 2 ^ 60))"
  "js_index rounding_hand 18 = Some (pt (1 / 2 ^ 59))"
  "js_index rounding_hand 20 = Some (pt (1 / 2 ^ 60))"
  unfolding rounding_hand_def js_index_def by simp_all

lemma fist_hand_facts:
  "length fist_hand = 21 \<and> allFourCurled ieee_lib fist_hand
   \<and> pinchGapBelow ieee_lib fist_hand"
proof -
  have "length fist_hand = 21" by (simp add: fist_hand_def)
  moreover have "allFourCurled ieee_lib fist_hand"
    unfolding allFourCurled_def isCurled_def Let_def fist_hand_index dist3_axis_0 dist3_axis_2
    by (simp add: bind_res_def)
  moreover have "pinchGapBelow ieee_lib fist_hand"
    unfolding pinchGapBelow_def fist_hand_index dist3_axis_0
    using pinch_threshold by simp
  ultimately show ?thesis by blast
qed

lemma pointing_pinch_hand_facts:
  "length pointing_pinch_hand = 21
   \<and> isCurled ieee_lib pointing_pinch_hand 8 6 = Inr False
   \<and> isCurled ieee_lib pointing_pinch_hand 12 10 = Inr True
   \<and> isCurled ieee_lib pointing_pinch_hand 16 14 = Inr True
   \<and> isCurled ieee_lib pointing_pinch_hand 20 18 = Inr True
   \<and> \<not> allFourCurled ieee_lib pointing_pinch_hand
   \<and> pinchGapBelow ieee_lib pointing_pinch_hand"
proof -
  have len: "length pointing_pinch_hand = 21" by (simp add: pointing_pinch_hand_def)
  have c1: "isCurled ieee_lib pointing_pinch_hand 8 6 = Inr False"
    unfolding isCurled_def Let_def pointing_pinch_hand_index dist3_axis_2 dist3_axis_3
    by (simp add: bind_res_def)
  have c2: "isCurled ieee_lib pointing_pinch_hand 12 10 = Inr True"
    unfolding isCurled_def Let_def pointing_pinch_hand_index dist3_axis_0 dist3_axis_2
    by (simp add: bind_res_def)
  have c3: "isCurled ieee_lib pointing_pinch_hand 16 14 = Inr True"
    unfolding isCurled_def Let_def pointing_pinch_hand_index dist3_axis_0 dist3_axis_2
    by (simp add: bind_res_def)
  have c4: "isCurled ieee_lib pointing_pinch_hand 20 18 = Inr True"
    unfolding isCurled_def Let_def pointing_pinch_hand_index dist3_axis_0 dist3_axis_2
    by (simp add: bind_res_def)
  have not_all: "\<not> allFourCurled ieee_lib pointing_pinch_hand"
    by (simp add: allFourCurled_def c1)
  have gap: "pinchGapBelow ieee_lib pointing_pinch_hand"
    unfolding pinchGapBelow_def pointing_pinch_hand_index dist3_axis_33
    using pinch_threshold by simp
  from len c1 c2 c3 c4 not_all gap show ?thesis by blast
qed

lemma rounding_hand_curled: "length rounding_hand = 21 \<and> all_four_curled rounding_hand"
  by (simp add: rounding_hand_def all_four_curled_def tip_closer_to_wrist_def
        euclidean_distance_def pt_def)

text \<open>
  On \<open>rounding_hand\<close> the code computes the same distance for a tip and for its PIP
  joint, whatever \<open>Math.pow\<close> and \<open>Math.sqrt\<close> compute: both differences to the wrist
  round to 1. So no library makes it a fist.
\<close>

lemma dsub_tip: "dsub (1 / 2 ^ 60) (- 1) = Finite 1"
proof -
  have "to_double (1 / 2 ^ 60 - - 1) = Finite (round64 (1 / 2 ^ 60 - - 1))"
  proof (rule to_double_small)
    show "\<bar>round64 (1 / 2 ^ 60 - - 1)\<bar> \<le> 2 ^ 10" unfolding round64_tip by simp
  qed
  then show ?thesis unfolding dsub_def round64_tip .
qed

lemma dsub_pip: "dsub (1 / 2 ^ 59) (- 1) = Finite 1"
proof -
  have "to_double (1 / 2 ^ 59 - - 1) = Finite (round64 (1 / 2 ^ 59 - - 1))"
  proof (rule to_double_small)
    show "\<bar>round64 (1 / 2 ^ 59 - - 1)\<bar> \<le> 2 ^ 10" unfolding round64_pip by simp
  qed
  then show ?thesis unfolding dsub_def round64_pip .
qed

lemma rounding_hand_same_distance:
  "dist3 lib (Some (pt (1 / 2 ^ 60))) (Some (pt (- 1)))
     = dist3 lib (Some (pt (1 / 2 ^ 59))) (Some (pt (- 1)))"
  unfolding dist3_pt dsub_tip dsub_pip ..

lemma rounding_hand_not_curled:
  "isCurled lib rounding_hand 8 6 = Inr False"
  "isCurled lib rounding_hand 12 10 = Inr False"
  "isCurled lib rounding_hand 16 14 = Inr False"
  "isCurled lib rounding_hand 20 18 = Inr False"
  unfolding isCurled_def Let_def rounding_hand_index rounding_hand_same_distance
  unfolding dist3_pt
  by (simp_all add: bind_res_def dless_irrefl)

lemma rounding_hand_any_library: "recognizeGesture lib rounding_hand \<noteq> Inr CLOSED_FIST"
  unfolding recognizeGesture_def rounding_hand_not_curled
  by (simp add: bind_res_def Let_def split: sum.splits)

text \<open>
  C10 as stated fails. On \<open>rounding_hand\<close> index, middle, ring and pinky are all curled
  (each tip is closer to the wrist in 3D than its PIP joint), and the recognizer, with
  correctly rounded \<open>Math.pow\<close> and \<open>Math.sqrt\<close>, returns OPEN_PALM: the distances it
  compares are both the double 1.
\<close>

theorem gesture_priority_counterexample:
  "length rounding_hand = 21 \<and> all_four_curled rounding_hand
   \<and> recognizeGesture ieee_lib rounding_hand = Inr OPEN_PALM"
proof -
  have "recognizeGesture ieee_lib rounding_hand = Inr OPEN_PALM"
    unfolding recognizeGesture_def rounding_hand_not_curled rounding_hand_index
      dist3_axis_thumb
    using pinch_threshold by (simp add: bind_res_def)
  with rounding_hand_curled show ?thesis by simp
qed

text \<open>
  C10, amended. The classification has the priority fist, pinch, pointing, open palm
  over the tests as the code computes them in double precision: on 21 landmarks, when
  the four \<open>isCurled\<close> tests of index, middle, ring and pinky all succeed (the computed
  distance from tip to wrist is less than the computed distance from PIP joint to wrist)
  the result is CLOSED_FIST whatever the distance of thumb tip and index tip; when not
  all four succeed and the computed distance of thumb tip and index tip is below the
  double 0.08 the result is PINCH, whatever the pointing and open-palm conditions.
\<close>

theorem gesture_priority_computed:
  assumes "length lms = 21"
  shows "(allFourCurled lib lms \<longrightarrow> recognizeGesture lib lms = Inr CLOSED_FIST)
       \<and> (\<not> allFourCurled lib lms \<and> pinchGapBelow lib lms \<longrightarrow>
            recognizeGesture lib lms = Inr PINCH)"
proof -
  from assms have len: "21 \<le> length lms" by simp
  obtain b1 where b1: "isCurled lib lms 8 6 = Inr b1"
    using isCurled_total [OF len, of 8 6] by auto
  obtain b2 where b2: "isCurled lib lms 12 10 = Inr b2"
    using isCurled_total [OF len, of 12 10] by auto
  obtain b3 where b3: "isCurled lib lms 16 14 = Inr b3"
    using isCurled_total [OF len, of 16 14] by auto
  obtain b4 where b4: "isCurled lib lms 20 18 = Inr b4"
    using isCurled_total [OF len, of 20 18] by auto
  obtain d where d: "dist3 lib (js_index lms 4) (js_index lms 8) = Inr d"
    using dist3_total [OF len, of 4 8] by auto
  have fist: "allFourCurled lib lms \<longrightarrow> recognizeGesture lib lms = Inr CLOSED_FIST"
    by (simp add: recognizeGesture_def allFourCurled_def bind_res_def Let_def)
  have pinch: "\<not> allFourCurled lib lms \<and> pinchGapBelow lib lms \<longrightarrow>
      recognizeGesture lib lms = Inr PINCH"
    by (auto simp: recognizeGesture_def allFourCurled_def pinchGapBelow_def b1 b2 b3 b4 d
          bind_res_def Let_def)
  from fist pinch show ?thesis by blast
qed

theorem gesture_priority_computed_witness:
  "length fist_hand = 21 \<and> allFourCurled ieee_lib fist_hand
   \<and> pinchGapBelow ieee_lib fist_hand
   \<and> recognizeGesture ieee_lib fist_hand = Inr CLOSED_FIST
   \<and> length pointing_pinch_hand = 21
   \<and> isCurled ieee_lib pointing_pinch_hand 8 6 = Inr False
   \<and> isCurled ieee_lib pointing_pinch_hand 12 10 = Inr True
   \<and> isCurled ieee_lib pointing_pinch_hand 16 14 = Inr True
   \<and> isCurled ieee_lib pointing_pinch_hand 20 18 = Inr True
   \<and> \<not> allFourCurled ieee_lib pointing_pinch_hand
   \<and> pinchGapBelow ieee_lib pointing_pinch_hand
   \<and> recognizeGesture ieee_lib pointing_pinch_hand = Inr PINCH"
  using gesture_priority_computed [of fist_hand ieee_lib]
    gesture_priority_computed [of pointing_pinch_hand ieee_lib]
    fist_hand_facts pointing_pinch_hand_facts
  by simp

section \<open>Properties of the logic loop\<close>

lemma targetResonance_cases:
  "targetResonance g =
     (case g of OPEN_PALM \<Rightarrow> 0.8 | PINCH \<Rightarrow> 0.5 | CLOSED_FIST \<Rightarrow> 0.1
      | POINTING \<Rightarrow> 0.3 | NONE \<Rightarrow> 0.2)"
  by (cases g) (simp_all add: targetResonance_def)

lemma targetResonance_range: "0 \<le> targetResonance g \<and> targetResonance g \<le> 1"
  by (cases g) (simp_all add: targetResonance_def)

lemma targetResonance_values: "targetResonance g \<in> {0.1, 0.2, 0.3, 0.5, 0.8}"
  by (cases g) (simp_all add: targetResonance_def)

lemma loop_appState:
  "appState (fst (loop now s)) =
     (if appState s = AWAKENING \<and> awakenProgress s + 0.005 \<ge> 1 then RESONANT else appState s)"
  by (simp add: loop_def Let_def)

lemma loop_awakenProgress:
  "awakenProgress (fst (loop now s)) =
     (if appState s = AWAKENING
      then (if awakenProgress s + 0.005 \<ge> 1 then 1 else awakenProgress s + 0.005)
      else awakenProgress s)"
  by (simp add: loop_def Let_def)

lemma loop_resonance:
  "resonance (fst (loop now s)) =
     (if appState s = RESONANT
      then resonance s + (targetResonance (currentGesture s) - resonance s) * 0.05
      else resonance s)"
  by (simp add: loop_def Let_def)

lemma loop_showIntro: "showIntro (fst (loop now s)) = showIntro s"
  by (simp add: loop_def Let_def)

lemma loop_level:
  "snd (loop now s) = (if appState s = RESONANT then resonance s else awakenProgress s)"
  by (simp add: loop_def Let_def)

lemma smoothing_between:
  fixes r t :: real
  shows "min r t \<le> r + (t - r) * 0.05 \<and> r + (t - r) * 0.05 \<le> max r t"
proof (cases "r \<le> t")
  case True
  then have "r \<le> r + (t - r) * 0.05" and "r + (t - r) * 0.05 \<le> t"
    by (simp_all add: field_simps)
  with True show ?thesis by (simp add: min_def max_def)
next
  case False
  then have "t \<le> r + (t - r) * 0.05" and "r + (t - r) * 0.05 \<le> r"
    by (simp_all add: field_simps)
  with False show ?thesis by (simp add: min_def max_def)
qed

lemma smoothing_unit:
  fixes r t :: real
  assumes "0 \<le> r" "r \<le> 1" "0 \<le> t" "t \<le> 1"
  shows "0 \<le> r + (t - r) * 0.05 \<and> r + (t - r) * 0.05 \<le> 1"
proof -
  have "min r t \<le> r + (t - r) * 0.05" and "r + (t - r) * 0.05 \<le> max r t"
    using smoothing_between [of r t] by blast+
  moreover have "0 \<le> min r t" and "max r t \<le> 1" using assms by simp_all
  ultimately show ?thesis by linarith
qed

lemma App_inv_initial: "App_inv App_initial"
  by (simp add: App_inv_def App_initial_def)

lemma App_inv_dispatch:
  assumes "App_inv s"
  shows "App_inv (dispatch s e)"
proof (cases e)
  case (Frame now)
  have "0 \<le> resonance (fst (loop now s)) \<and> resonance (fst (loop now s)) \<le> 1"
    using assms smoothing_unit [of "resonance s" "targetResonance (currentGesture s)"]
      targetResonance_range [of "currentGesture s"]
    by (simp add: loop_resonance App_inv_def)
  moreover have "0 \<le> awakenProgress (fst (loop now s))
      \<and> awakenProgress (fst (loop now s)) \<le> 1"
    using assms by (simp add: loop_awakenProgress App_inv_def)
  moreover have "showIntro (fst (loop now s)) \<longleftrightarrow> appState (fst (loop now s)) = DISCONNECTED"
    using assms by (simp add: loop_showIntro loop_appState App_inv_def)
  ultimately show ?thesis using Frame by (simp add: App_inv_def)
next
  case InitiateLink
  with assms show ?thesis by (simp add: App_inv_def startExperience_def)
next
  case (GestureChange g pos lms)
  with assms show ?thesis
    by (simp add: App_inv_def handleGestureChange_def split: prod.splits)
qed

lemma App_inv_run: "App_inv (run es)"
  unfolding run_def
  by (induction es rule: rev_induct) (simp_all add: App_inv_initial App_inv_dispatch)

lemma dispatch_appState:
  assumes "App_inv s"
  shows "appState (dispatch s e) = appState s
       \<or> (appState s = DISCONNECTED \<and> e = InitiateLink \<and> appState (dispatch s e) = AWAKENING)
       \<or> (appState s = AWAKENING \<and> (\<exists>now. e = Frame now) \<and> 1 \<le> awakenProgress s + 0.005
            \<and> appState (dispatch s e) = RESONANT)"
proof (cases e)
  case (Frame now)
  then show ?thesis by (simp add: loop_appState)
next
  case InitiateLink
  with assms show ?thesis by (simp add: App_inv_def startExperience_def)
next
  case (GestureChange g pos lms)
  then show ?thesis by (simp add: handleGestureChange_def split: prod.splits)
qed

lemma dispatch_resonance:
  "resonance (dispatch s e) =
     (case e of Frame now \<Rightarrow> resonance (fst (loop now s)) | _ \<Rightarrow> resonance s)"
  by (cases e) (simp_all add: startExperience_def handleGestureChange_def split: prod.splits)

lemma run_Nil: "run [] = App_initial"
  by (simp add: run_def)

lemma run_started:
  "run (InitiateLink # es) = foldl dispatch (startExperience App_initial) es"
  by (simp add: run_def App_initial_def)

lemma started_awakening:
  "appState (startExperience App_initial) = AWAKENING
   \<and> awakenProgress (startExperience App_initial) = 0
   \<and> \<not> showIntro (startExperience App_initial)"
  by (simp add: startExperience_def App_initial_def)

lemma frameCount_snoc:
  "frameCount (es @ [e]) = (if isFrame e then Suc (frameCount es) else frameCount es)"
  by (simp add: frameCount_def)

lemma frameCount_frames: "frameCount (map Frame nows) = length nows"
  by (induction nows) (simp_all add: frameCount_def)

lemma frameCount_replicate: "frameCount (replicate n (Frame now)) = n"
  using frameCount_frames [of "replicate n now"] by simp

text \<open>
  The awakening phase in closed form: after a trace with \<open>n\<close> frames the progress is
  \<open>n * 0.005\<close> and the state is still awakening while \<open>n < 200\<close>; from the 200th frame
  on the state is resonant and the progress is 1.
\<close>

lemma awakening_closed_form:
  assumes "appState s = AWAKENING" and "awakenProgress s = 0" and "\<not> showIntro s"
  shows "appState (foldl dispatch s es) = (if frameCount es < 200 then AWAKENING else RESONANT)
       \<and> awakenProgress (foldl dispatch s es) =
           (if frameCount es < 200 then real (frameCount es) * 0.005 else 1)
       \<and> \<not> showIntro (foldl dispatch s es)"
proof (induction es rule: rev_induct)
  case Nil
  show ?case using assms by (simp add: frameCount_def)
next
  case (snoc e es)
  let ?s = "foldl dispatch s es"
  let ?n = "frameCount es"
  show ?case
  proof (cases e)
    case (Frame now)
    then have count: "frameCount (es @ [e]) = Suc ?n" by (simp add: frameCount_snoc)
    show ?thesis
    proof (cases "?n < 199")
      case True
      then have "real ?n * 0.005 + 0.005 < 1" by simp
      with True snoc Frame count show ?thesis
        by (simp add: loop_appState loop_awakenProgress loop_showIntro algebra_simps)
    next
      case False
      show ?thesis
      proof (cases "?n = 199")
        case True
        with snoc Frame count show ?thesis
          by (simp add: loop_appState loop_awakenProgress loop_showIntro)
      next
        case False
        with \<open>\<not> ?n < 199\<close> have "\<not> ?n < 200" by simp
        with snoc Frame count show ?thesis
          by (simp add: loop_appState loop_awakenProgress loop_showIntro)
      qed
    qed
  next
    case InitiateLink
    with snoc show ?thesis by (simp add: frameCount_snoc)
  next
    case (GestureChange g pos lms)
    with snoc show ?thesis
      by (simp add: frameCount_snoc handleGestureChange_def split: prod.splits)
  qed
qed

lemma resonant_after_200:
  "appState (run (InitiateLink # map Frame (replicate 200 0))) = RESONANT"
  using awakening_closed_form [OF started_awakening [THEN conjunct1]
      started_awakening [THEN conjunct2, THEN conjunct1]
      started_awakening [THEN conjunct2, THEN conjunct2], of "map Frame (replicate 200 0)"]
  by (simp add: run_started frameCount_replicate)

text \<open>
  C2. While the application state is RESONANT, a frame updates the resonance scalar by
  exponential smoothing, \<open>r' = r + (t - r) * 0.05\<close>, where the target \<open>t\<close> is 0.8 for
  OPEN_PALM, 0.5 for PINCH, 0.1 for CLOSED_FIST, 0.3 for POINTING and 0.2 for NONE.
\<close>

theorem resonance_smoothing:
  assumes "appState s = RESONANT"
  shows "resonance (fst (loop now s)) =
           resonance s
           + ((case currentGesture s of
                 OPEN_PALM \<Rightarrow> 0.8 | PINCH \<Rightarrow> 0.5 | CLOSED_FIST \<Rightarrow> 0.1
               | POINTING \<Rightarrow> 0.3 | NONE \<Rightarrow> 0.2) - resonance s) * 0.05"
  using assms by (simp add: loop_resonance targetResonance_cases)

theorem resonance_smoothing_witness:
  "appState resonant_open_palm = RESONANT
   \<and> resonance (fst (loop 0 resonant_open_palm)) = 0.04"
  using resonance_smoothing [of resonant_open_palm 0]
  by (simp add: resonant_open_palm_def App_initial_def)

text \<open>
  C3. The state machine only advances in the order DISCONNECTED, AWAKENING, RESONANT.
  In every state reached from the initial (disconnected) one, an event either leaves the
  state as it is, or takes DISCONNECTED to AWAKENING (the click that starts the
  experience), or takes AWAKENING to RESONANT (a frame on which the progress reaches the
  threshold 1); the state never moves backwards, and RESONANT is absorbing.
\<close>

theorem state_machine_order:
  "(appState (dispatch (run es) e) = appState (run es)
     \<or> (appState (run es) = DISCONNECTED \<and> e = InitiateLink
          \<and> appState (dispatch (run es) e) = AWAKENING)
     \<or> (appState (run es) = AWAKENING \<and> (\<exists>now. e = Frame now)
          \<and> 1 \<le> awakenProgress (run es) + 0.005
          \<and> appState (dispatch (run es) e) = RESONANT))
   \<and> rank (appState (run es)) \<le> rank (appState (dispatch (run es) e))
   \<and> (appState (run es) = RESONANT \<longrightarrow> appState (dispatch (run es) e) = RESONANT)
   \<and> appState (run []) = DISCONNECTED"
proof -
  have step: "appState (dispatch (run es) e) = appState (run es)
     \<or> (appState (run es) = DISCONNECTED \<and> e = InitiateLink
          \<and> appState (dispatch (run es) e) = AWAKENING)
     \<or> (appState (run es) = AWAKENING \<and> (\<exists>now. e = Frame now)
          \<and> 1 \<le> awakenProgress (run es) + 0.005
          \<and> appState (dispatch (run es) e) = RESONANT)"
    by (rule dispatch_appState [OF App_inv_run])
  from step have mono: "rank (appState (run es)) \<le> rank (appState (dispatch (run es) e))"
    by auto
  from step have absorbing:
    "appState (run es) = RESONANT \<longrightarrow> appState (dispatch (run es) e) = RESONANT"
    by auto
  have "appState (run []) = DISCONNECTED"
    by (simp add: run_Nil App_initial_def)
  with step mono absorbing show ?thesis by blast
qed

theorem state_machine_order_witness:
  "appState (run (InitiateLink # map Frame (replicate 200 0))) = RESONANT
   \<and> appState (dispatch (run (InitiateLink # map Frame (replicate 200 0))) InitiateLink)
       = RESONANT"
  using state_machine_order [of "InitiateLink # map Frame (replicate 200 0)" InitiateLink]
    resonant_after_200
  by simp

text \<open>
  C4. While the state is AWAKENING the progress grows by exactly 0.005 per frame and is
  never above 1; the state machine enters RESONANT exactly on the frame on which the
  accumulated progress reaches 1, which from progress 0 is the 200th frame.
\<close>

theorem awakening_200_frames:
  assumes "appState s = AWAKENING" and "awakenProgress s = 0" and "\<not> showIntro s"
  shows "(frameCount es < 200 \<longrightarrow>
            appState (foldl dispatch s es) = AWAKENING
          \<and> awakenProgress (foldl dispatch s es) = real (frameCount es) * 0.005
          \<and> awakenProgress (dispatch (foldl dispatch s es) (Frame now)) =
              awakenProgress (foldl dispatch s es) + 0.005
          \<and> (appState (dispatch (foldl dispatch s es) (Frame now)) = RESONANT
               \<longleftrightarrow> frameCount es = 199))
       \<and> (200 \<le> frameCount es \<longrightarrow>
            appState (foldl dispatch s es) = RESONANT
          \<and> awakenProgress (foldl dispatch s es) = 1)
       \<and> awakenProgress (foldl dispatch s es) \<le> 1"
proof -
  note closed = awakening_closed_form [OF assms]
  have next_frame: "dispatch (foldl dispatch s es) (Frame now) = foldl dispatch s (es @ [Frame now])"
    by simp
  have count: "frameCount (es @ [Frame now]) = Suc (frameCount es)"
    by (simp add: frameCount_snoc)
  have A: "frameCount es < 200 \<longrightarrow>
            appState (foldl dispatch s es) = AWAKENING
          \<and> awakenProgress (foldl dispatch s es) = real (frameCount es) * 0.005"
    using closed [of es] by simp
  have B: "frameCount es < 200 \<longrightarrow>
      awakenProgress (dispatch (foldl dispatch s es) (Frame now)) =
              awakenProgress (foldl dispatch s es) + 0.005"
  proof
    assume lt: "frameCount es < 200"
    show "awakenProgress (dispatch (foldl dispatch s es) (Frame now)) =
              awakenProgress (foldl dispatch s es) + 0.005"
    proof (cases "frameCount es = 199")
      case True
      then show ?thesis
        using closed [of es] closed [of "es @ [Frame now]"]
        unfolding next_frame count by simp
    next
      case False
      with lt have "Suc (frameCount es) < 200" by simp
      then show ?thesis
        using lt closed [of es] closed [of "es @ [Frame now]"]
        unfolding next_frame count by (simp add: algebra_simps)
    qed
  qed
  have C: "frameCount es < 200 \<longrightarrow>
      (appState (dispatch (foldl dispatch s es) (Frame now)) = RESONANT
         \<longleftrightarrow> frameCount es = 199)"
    using closed [of "es @ [Frame now]"]
    unfolding next_frame count by auto
  have D: "200 \<le> frameCount es \<longrightarrow>
            appState (foldl dispatch s es) = RESONANT
          \<and> awakenProgress (foldl dispatch s es) = 1"
    using closed [of es] by simp
  have E: "awakenProgress (foldl dispatch s es) \<le> 1"
    using closed [of es] by (simp split: if_splits)
  from A B C D E show ?thesis by blast
qed

theorem awakening_200_frames_witness:
  "appState (startExperience App_initial) = AWAKENING
   \<and> awakenProgress (startExperience App_initial) = 0
   \<and> \<not> showIntro (startExperience App_initial)
   \<and> frameCount (map Frame (replicate 199 0)) < 200
   \<and> appState (foldl dispatch (startExperience App_initial) (map Frame (replicate 199 0)))
       = AWAKENING
   \<and> awakenProgress (foldl dispatch (startExperience App_initial) (map Frame (replicate 199 0)))
       = 0.995
   \<and> 200 \<le> frameCount (map Frame (replicate 200 0))
   \<and> appState (foldl dispatch (startExperience App_initial) (map Frame (replicate 200 0)))
       = RESONANT
   \<and> awakenProgress (foldl dispatch (startExperience App_initial) (map Frame (replicate 200 0)))
       = 1"
  using awakening_200_frames [of "startExperience App_initial" "map Frame (replicate 199 0)" 0]
    awakening_200_frames [of "startExperience App_initial" "map Frame (replicate 200 0)" 0]
    started_awakening
  by (simp add: frameCount_replicate)

text \<open>
  C5 as stated fails: in a state other than RESONANT the scalar handed to the audio
  engine is not the resonance scalar. On the second awakening frame the resonance is 0
  and \<open>audioService.setResonance\<close> receives the awakening progress 0.005.
\<close>

theorem audio_level_not_resonance_counterexample:
  "appState second_frame = AWAKENING \<and> resonance second_frame = 0
   \<and> snd (loop 0 second_frame) = 0.005
   \<and> snd (loop 0 second_frame) \<noteq> resonance second_frame"
  by (simp add: second_frame_def loop_def startExperience_def App_initial_def Let_def)

text \<open>
  C5, amended. On every frame \<open>audioService.setResonance\<close> is called once: with the
  resonance scalar read that frame when the state is RESONANT, and with the awakening
  progress read that frame in every other state.
\<close>

theorem audio_level_per_frame:
  "snd (loop now s) = (if appState s = RESONANT then resonance s else awakenProgress s)
   \<and> snd (frame now (s, e)) =
       setResonance (if appState s = RESONANT then resonance s else awakenProgress s) e"
  by (simp add: loop_level frame_def)

theorem audio_level_per_frame_witness:
  "snd (loop 0 resonant_open_palm) = resonance resonant_open_palm
   \<and> snd (loop 0 second_frame) = awakenProgress second_frame"
  using audio_level_per_frame [of 0 resonant_open_palm AudioEngine_new]
    audio_level_per_frame [of 0 second_frame AudioEngine_new]
  by (simp add: resonant_open_palm_def second_frame_def loop_def startExperience_def
        App_initial_def Let_def)

text \<open>
  C8. The resonance scalar stays in the unit interval: it starts at 0, no event changes
  it outside the RESONANT state, and in the RESONANT state a frame moves it to
  \<open>r + (t - r) * 0.05\<close> with a target \<open>t\<close> among 0.1, 0.2, 0.3, 0.5, 0.8, which lies
  between the previous value and the target. So the resonance the visual consumer reads
  and the level the audio consumer is handed are in the unit interval in every reached
  state.
\<close>

theorem resonance_unit_interval:
  "resonance (run []) = 0
   \<and> 0 \<le> resonance (run es) \<and> resonance (run es) \<le> 1
   \<and> (appState (run es) \<noteq> RESONANT \<longrightarrow> resonance (dispatch (run es) e) = resonance (run es))
   \<and> (appState (run es) = RESONANT \<longrightarrow>
         targetResonance (currentGesture (run es)) \<in> {0.1, 0.2, 0.3, 0.5, 0.8}
       \<and> resonance (dispatch (run es) (Frame now)) =
           resonance (run es)
           + (targetResonance (currentGesture (run es)) - resonance (run es)) * 0.05
       \<and> min (resonance (run es)) (targetResonance (currentGesture (run es)))
           \<le> resonance (dispatch (run es) (Frame now))
       \<and> resonance (dispatch (run es) (Frame now))
           \<le> max (resonance (run es)) (targetResonance (currentGesture (run es))))
   \<and> 0 \<le> snd (loop now (run es)) \<and> snd (loop now (run es)) \<le> 1"
proof -
  have inv: "App_inv (run es)" by (rule App_inv_run)
  have start: "resonance (run []) = 0" by (simp add: run_Nil App_initial_def)
  have range: "0 \<le> resonance (run es) \<and> resonance (run es) \<le> 1"
    using inv by (simp add: App_inv_def)
  have outside: "appState (run es) \<noteq> RESONANT \<longrightarrow>
      resonance (dispatch (run es) e) = resonance (run es)"
    by (simp add: dispatch_resonance loop_resonance split: event.splits)
  have inside: "appState (run es) = RESONANT \<longrightarrow>
         targetResonance (currentGesture (run es)) \<in> {0.1, 0.2, 0.3, 0.5, 0.8}
       \<and> resonance (dispatch (run es) (Frame now)) =
           resonance (run es)
           + (targetResonance (currentGesture (run es)) - resonance (run es)) * 0.05
       \<and> min (resonance (run es)) (targetResonance (currentGesture (run es)))
           \<le> resonance (dispatch (run es) (Frame now))
       \<and> resonance (dispatch (run es) (Frame now))
           \<le> max (resonance (run es)) (targetResonance (currentGesture (run es)))"
    using smoothing_between [of "resonance (run es)" "targetResonance (currentGesture (run es))"]
      targetResonance_values [of "currentGesture (run es)"]
    by (simp add: loop_resonance)
  have handed: "0 \<le> snd (loop now (run es)) \<and> snd (loop now (run es)) \<le> 1"
    using inv by (simp add: loop_level App_inv_def)
  from start range outside inside handed show ?thesis by blast
qed

theorem resonance_unit_interval_witness:
  "appState (run []) \<noteq> RESONANT
   \<and> resonance (dispatch (run []) (Frame 0)) = resonance (run [])
   \<and> appState (run (InitiateLink # map Frame (replicate 200 0))) = RESONANT
   \<and> resonance (dispatch (run (InitiateLink # map Frame (replicate 200 0))) (Frame 0))
       \<le> max (resonance (run (InitiateLink # map Frame (replicate 200 0))))
             (targetResonance (currentGesture (run (InitiateLink # map Frame (replicate 200 0)))))
   \<and> resonance (run (InitiateLink # map Frame (replicate 200 0))) \<le> 1"
  using resonance_unit_interval [of "[]" "Frame 0" 0]
    resonance_unit_interval [of "InitiateLink # map Frame (replicate 200 0)" "Frame 0" 0]
    resonant_after_200
  by (simp add: run_Nil App_initial_def)

section \<open>Properties of the audio engine\<close>

lemma init_inv: "AudioEngine_inv e \<Longrightarrow> AudioEngine_inv (init fresh e)"
  by (cases "ctx e")
     (simp_all add: AudioEngine_inv_def init_def setupChakras_def setupTides_def setupDrone_def
        CHAKRA_DATA_def)

lemma length_chakraGains_setResonance:
  "length (chakraGains (setResonance level e)) = length (chakraGains e)"
  by (simp add: setResonance_def Let_def split: option.splits)

lemma setResonance_inv: "AudioEngine_inv e \<Longrightarrow> AudioEngine_inv (setResonance level e)"
  by (auto simp: AudioEngine_inv_def setResonance_def Let_def split: option.splits)

lemma audio_step_inv:
  assumes "AudioEngine_inv e"
  shows "AudioEngine_inv (audio_step e a)"
proof (cases a)
  case (Init fresh)
  with assms show ?thesis by (simp add: init_inv)
next
  case Resume
  with assms show ?thesis
    by (auto simp: AudioEngine_inv_def resume_def split: option.splits)
next
  case (SetResonance level)
  with assms show ?thesis by (simp add: setResonance_inv)
next
  case (TriggerTone index)
  with assms show ?thesis
    by (auto simp: AudioEngine_inv_def triggerTone_def Let_def split: option.splits)
next
  case ToggleMute
  with assms show ?thesis
    by (auto simp: AudioEngine_inv_def toggleMute_def Let_def split: option.splits)
next
  case (Browser st t)
  with assms show ?thesis
    by (auto simp: AudioEngine_inv_def split: option.splits)
qed

lemma audio_run_inv: "AudioEngine_inv (audio_run ops)"
  unfolding audio_run_def
  by (induction ops rule: rev_induct)
     (simp_all add: audio_step_inv, simp add: AudioEngine_inv_def AudioEngine_new_def)

lemma scheduledTarget_setTargetAtTime:
  "scheduledTarget (setTargetAtTime v st tc p) = Some v"
  by (simp add: scheduledTarget_def setTargetAtTime_def)

lemma currentTime_ctx_resume: "currentTime (ctx_resume c) = currentTime c"
  by (simp add: ctx_resume_def)

lemma setResonance_tideGain:
  assumes "ctx e = Some c" and "\<not> isMuted e" and "tideGain e = Some tg"
    and "tideFilter e = Some tf"
  shows "tideGain (setResonance level e) =
           Some (tg\<lparr>gain := setTargetAtTime
                               (fadd (round64 0.15) (fmul (max 0 (min 1 level)) (round64 0.45)))
                               (currentTime c) (round64 0.2) (gain tg)\<rparr>)"
  using assms by (simp add: setResonance_def Let_def currentTime_ctx_resume)

lemma setResonance_tideFilter:
  assumes "ctx e = Some c" and "\<not> isMuted e" and "tideGain e = Some tg"
    and "tideFilter e = Some tf"
  shows "tideFilter (setResonance level e) =
           Some (tf\<lparr>frequency := setTargetAtTime
                                    (fadd 300 (fmul (max 0 (min 1 level)) 1200))
                                    (currentTime c) (round64 0.2) (frequency tf)\<rparr>)"
  using assms by (simp add: setResonance_def Let_def currentTime_ctx_resume)

lemma setResonance_chakra:
  assumes "ctx e = Some c" and "\<not> isMuted e" and "i < length (chakraGains e)"
  shows "scheduledTarget (gain (chakraGains (setResonance level e) ! i)) =
           Some (if real i \<le> fmul (max 0 (min 1 level)) 7
                    \<and> max 0 (min 1 level) > round64 0.05
                 then baseVol i else 0)"
  using assms
  by (simp add: setResonance_def Let_def nth_enumerate_eq scheduledTarget_setTargetAtTime
        split: option.splits)

text \<open>The seven volumes, computed in double precision: none is zero.\<close>

lemma baseVol_0: "baseVol 0 = 1080863910568919 / 2 ^ 53"
proof -
  have a: "fmul (real 0) (round64 0.1) = 0"
    by (simp add: fmul_def round64_0)
  have b: "fsub 1 0 = 1"
    by (simp add: fsub_def round64_1)
  have c: "fmul (1080863910568919 / 2 ^ 53) 1 = 1080863910568919 / 2 ^ 53"
    unfolding fmul_def
    using round64_eval [of "- 4" "1080863910568919 / 2 ^ 53 * 1"]
    by (simp add: round64_simps)
  show ?thesis unfolding baseVol_def a double_0_12 b c ..
qed

lemma baseVol_1: "baseVol 1 = 7782220156096217 / 2 ^ 56"
proof -
  have a: "fmul (real 1) (round64 0.1) = 3602879701896397 / 2 ^ 55"
    unfolding fmul_def double_0_1
    using round64_eval [of "- 4" "real 1 * (3602879701896397 / 2 ^ 55)"]
    by (simp add: round64_simps)
  have b: "fsub 1 (3602879701896397 / 2 ^ 55) = 8106479329266893 / 2 ^ 53"
    unfolding fsub_def
    using round64_eval [of "- 1" "1 - 3602879701896397 / 2 ^ 55"]
    by (simp add: round64_simps)
  have c: "fmul (1080863910568919 / 2 ^ 53) (8106479329266893 / 2 ^ 53) = 7782220156096217 / 2 ^ 56"
    unfolding fmul_def
    using round64_eval [of "- 4" "1080863910568919 / 2 ^ 53 * (8106479329266893 / 2 ^ 53)"]
    by (simp add: round64_simps)
  show ?thesis unfolding baseVol_def a double_0_12 b c ..
qed

lemma baseVol_2: "baseVol 2 = 3458764513820541 / 2 ^ 55"
proof -
  have a: "fmul (real 2) (round64 0.1) = 3602879701896397 / 2 ^ 54"
    unfolding fmul_def double_0_1
    using round64_eval [of "- 3" "real 2 * (3602879701896397 / 2 ^ 55)"]
    by (simp add: round64_simps)
  have b: "fsub 1 (3602879701896397 / 2 ^ 54) = 3602879701896397 / 2 ^ 52"
    unfolding fsub_def
    using round64_eval [of "- 1" "1 - 3602879701896397 / 2 ^ 54"]
    by (simp add: round64_simps)
  have c: "fmul (1080863910568919 / 2 ^ 53) (3602879701896397 / 2 ^ 52) = 3458764513820541 / 2 ^ 55"
    unfolding fmul_def
    using round64_eval [of "- 4" "1080863910568919 / 2 ^ 53 * (3602879701896397 / 2 ^ 52)"]
    by (simp add: round64_simps)
  show ?thesis unfolding baseVol_def a double_0_12 b c ..
qed

lemma baseVol_3: "baseVol 3 = 3026418949592973 / 2 ^ 55"
proof -
  have a: "fmul (real 3) (round64 0.1) = 1351079888211149 / 2 ^ 52"
    unfolding fmul_def double_0_1
    using round64_eval [of "- 2" "real 3 * (3602879701896397 / 2 ^ 55)"]
    by (simp add: round64_simps)
  have b: "fsub 1 (1351079888211149 / 2 ^ 52) = 3152519739159347 / 2 ^ 52"
    unfolding fsub_def
    using round64_eval [of "- 1" "1 - 1351079888211149 / 2 ^ 52"]
    by (simp add: round64_simps)
  have c: "fmul (1080863910568919 / 2 ^ 53) (3152519739159347 / 2 ^ 52) = 3026418949592973 / 2 ^ 55"
    unfolding fmul_def
    using round64_eval [of "- 4" "1080863910568919 / 2 ^ 53 * (3152519739159347 / 2 ^ 52)"]
    by (simp add: round64_simps)
  show ?thesis unfolding baseVol_def a double_0_12 b c ..
qed

lemma baseVol_4: "baseVol 4 = 5188146770730811 / 2 ^ 56"
proof -
  have a: "fmul (real 4) (round64 0.1) = 3602879701896397 / 2 ^ 53"
    unfolding fmul_def double_0_1
    using round64_eval [of "- 2" "real 4 * (3602879701896397 / 2 ^ 55)"]
    by (simp add: round64_simps)
  have b: "fsub 1 (3602879701896397 / 2 ^ 53) = 5404319552844595 / 2 ^ 53"
    unfolding fsub_def
    using round64_eval [of "- 1" "1 - 3602879701896397 / 2 ^ 53"]
    by (simp add: round64_simps)
  have c: "fmul (1080863910568919 / 2 ^ 53) (5404319552844595 / 2 ^ 53) = 5188146770730811 / 2 ^ 56"
    unfolding fmul_def
    using round64_eval [of "- 4" "1080863910568919 / 2 ^ 53 * (5404319552844595 / 2 ^ 53)"]
    by (simp add: round64_simps)
  show ?thesis unfolding baseVol_def a double_0_12 b c ..
qed

lemma baseVol_5: "baseVol 5 = 1080863910568919 / 2 ^ 54"
proof -
  have a: "fmul (real 5) (round64 0.1) = 1 / 2 ^ 1"
    unfolding fmul_def double_0_1
    using round64_eval [of "- 1" "real 5 * (3602879701896397 / 2 ^ 55)"]
    by (simp add: round64_simps)
  have b: "fsub 1 (1 / 2 ^ 1) = 1 / 2 ^ 1"
    unfolding fsub_def
    using round64_eval [of "- 1" "1 - 1 / 2 ^ 1"]
    by (simp add: round64_simps)
  have c: "fmul (1080863910568919 / 2 ^ 53) (1 / 2 ^ 1) = 1080863910568919 / 2 ^ 54"
    unfolding fmul_def
    using round64_eval [of "- 5" "1080863910568919 / 2 ^ 53 * (1 / 2 ^ 1)"]
    by (simp add: round64_simps)
  show ?thesis unfolding baseVol_def a double_0_12 b c ..
qed

lemma baseVol_6: "baseVol 6 = 864691128455135 / 2 ^ 54"
proof -
  have a: "fmul (real 6) (round64 0.1) = 1351079888211149 / 2 ^ 51"
    unfolding fmul_def double_0_1
    using round64_eval [of "- 1" "real 6 * (3602879701896397 / 2 ^ 55)"]
    by (simp add: round64_simps)
  have b: "fsub 1 (1351079888211149 / 2 ^ 51) = 900719925474099 / 2 ^ 51"
    unfolding fsub_def
    using round64_eval [of "- 2" "1 - 1351079888211149 / 2 ^ 51"]
    by (simp add: round64_simps)
  have c: "fmul (1080863910568919 / 2 ^ 53) (900719925474099 / 2 ^ 51) = 864691128455135 / 2 ^ 54"
    unfolding fmul_def
    using round64_eval [of "- 5" "1080863910568919 / 2 ^ 53 * (900719925474099 / 2 ^ 51)"]
    by (simp add: round64_simps)
  show ?thesis unfolding baseVol_def a double_0_12 b c ..
qed

lemma baseVol_nonzero:
  assumes "i < 7"
  shows "baseVol i \<noteq> 0"
proof -
  from assms have "i = 0 \<or> i = 1 \<or> i = 2 \<or> i = 3 \<or> i = 4 \<or> i = 5 \<or> i = 6"
    by auto
  then show ?thesis
    using baseVol_0 baseVol_1 baseVol_2 baseVol_3 baseVol_4 baseVol_5 baseVol_6 by auto
qed

text \<open>The products and comparisons at the three levels used below.\<close>

lemma active_index_half: "fmul (1 / 2) 7 = 7 / 2"
  unfolding fmul_def using round64_eval [of 1 "1 / 2 * 7"] by (simp add: round64_simps)

lemma threshold_half: "round64 0.05 < 1 / 2"
  unfolding double_0_05 by simp

lemma active_index_below_3_7: "fmul level_below_3_7 7 = 3"
  unfolding fmul_def level_below_3_7_def
  using round64_eval [of 1 "7720456504063707 / 2 ^ 54 * 7"] by (simp add: round64_simps)

lemma level_below_3_7_facts:
  "max 0 (min 1 level_below_3_7) = level_below_3_7 \<and> round64 0.05 < level_below_3_7
   \<and> \<not> (real 3 \<le> 7 * level_below_3_7)"
  unfolding double_0_05 level_below_3_7_def by simp

lemma level_double_0_05_facts:
  "level_double_0_05 = round64 0.05
   \<and> max 0 (min 1 level_double_0_05) = level_double_0_05
   \<and> real 0 \<le> 7 * level_double_0_05 \<and> 0.05 < level_double_0_05"
  unfolding double_0_05 level_double_0_05_def by simp

lemma initialised_engine:
  "ctx (audio_run [Init suspended_context]) \<noteq> None
   \<and> \<not> isMuted (audio_run [Init suspended_context])"
  by (simp add: audio_run_def AudioEngine_new_def init_def setupChakras_def setupTides_def
        setupDrone_def CHAKRA_DATA_def)

lemma muted_engine:
  "isMuted (audio_run [Init suspended_context, ToggleMute])
   \<and> ctx (audio_run [Init suspended_context, ToggleMute]) \<noteq> None"
  by (simp add: audio_run_def AudioEngine_new_def init_def setupChakras_def setupTides_def
        setupDrone_def CHAKRA_DATA_def toggleMute_def Let_def)

text \<open>
  C6 as stated fails at the boundaries, where the code's rounded product and its double
  constant decide otherwise than the exact numbers. At the double
  \<open>0.42857142857142855\<close>, below 3/7, the code computes \<open>L * 7 = 3\<close> and gives chakra 3
  its nonzero volume although \<open>3 \<le> 7 * L\<close> is false. At the double \<open>0.05\<close>, which is
  above 1/20, the code finds \<open>L > 0.05\<close> false and gives chakra 0 the target 0 although
  \<open>0 \<le> 7 * L\<close> and \<open>L > 0.05\<close> hold of the exact numbers.
\<close>

theorem setResonance_targets_counterexample:
  "ctx (audio_run [Init suspended_context]) \<noteq> None
   \<and> \<not> isMuted (audio_run [Init suspended_context])
   \<and> max 0 (min 1 level_below_3_7) = level_below_3_7
   \<and> \<not> (real 3 \<le> 7 * level_below_3_7)
   \<and> scheduledTarget (gain (chakraGains
         (setResonance level_below_3_7 (audio_run [Init suspended_context])) ! 3))
       = Some (3026418949592973 / 2 ^ 55)
   \<and> max 0 (min 1 level_double_0_05) = level_double_0_05
   \<and> real 0 \<le> 7 * level_double_0_05 \<and> 0.05 < level_double_0_05
   \<and> scheduledTarget (gain (chakraGains
         (setResonance level_double_0_05 (audio_run [Init suspended_context])) ! 0))
       = Some 0"
proof -
  let ?e = "audio_run [Init suspended_context]"
  from initialised_engine obtain c where c: "ctx ?e = Some c" by auto
  have muted: "\<not> isMuted ?e" using initialised_engine by simp
  have len: "length (chakraGains ?e) = 7"
    using audio_run_inv [of "[Init suspended_context]"] c by (simp add: AudioEngine_inv_def)
  have len3: "3 < length (chakraGains ?e)" and len0: "0 < length (chakraGains ?e)"
    using len by simp_all
  have clamp3: "max 0 (min 1 level_below_3_7) = level_below_3_7"
    and above: "round64 0.05 < level_below_3_7"
    using level_below_3_7_facts by blast+
  have clamp0: "max 0 (min 1 level_double_0_05) = level_double_0_05"
    and equal: "level_double_0_05 = round64 0.05"
    using level_double_0_05_facts by blast+
  note at3 = setResonance_chakra [OF c muted len3, of level_below_3_7,
      unfolded clamp3 active_index_below_3_7]
  have three: "scheduledTarget (gain (chakraGains (setResonance level_below_3_7 ?e) ! 3))
      = Some (3026418949592973 / 2 ^ 55)"
    using at3 above by (simp add: baseVol_3)
  note at0 = setResonance_chakra [OF c muted len0, of level_double_0_05, unfolded clamp0]
  have zero: "scheduledTarget (gain (chakraGains (setResonance level_double_0_05 ?e) ! 0))
      = Some 0"
    using at0 equal by simp
  from three zero initialised_engine level_below_3_7_facts level_double_0_05_facts
  show ?thesis by blast
qed

text \<open>
  C6, amended. On an initialised, unmuted engine, with \<open>L\<close> the level clamped to the unit
  interval and every operation rounded to double precision as the code computes it,
  \<open>setResonance\<close> sets the target of the tide gain to \<open>0.15 + L * 0.45\<close>, the target of
  the tide filter's frequency to \<open>300 + L * 1200\<close>, and for each of the seven chakra gains
  (index \<open>i\<close> from 0 to 6) the target \<open>0.12 * (1 - i * 0.1)\<close>, which is not zero, if
  \<open>i\<close> is at most the rounded product \<open>L * 7\<close> and \<open>L\<close> is above the double \<open>0.05\<close>,
  and the target 0 otherwise.
\<close>

theorem setResonance_targets:
  assumes "ctx (audio_run ops) \<noteq> None" and "\<not> isMuted (audio_run ops)"
  shows "(\<exists>tg. tideGain (setResonance level (audio_run ops)) = Some tg
             \<and> scheduledTarget (gain tg) =
                 Some (fadd (round64 0.15) (fmul (max 0 (min 1 level)) (round64 0.45))))
       \<and> (\<exists>tf. tideFilter (setResonance level (audio_run ops)) = Some tf
             \<and> scheduledTarget (frequency tf) =
                 Some (fadd 300 (fmul (max 0 (min 1 level)) 1200)))
       \<and> length (chakraGains (setResonance level (audio_run ops))) = 7
       \<and> (\<forall>i<7.
             scheduledTarget (gain (chakraGains (setResonance level (audio_run ops)) ! i)) =
               Some (if real i \<le> fmul (max 0 (min 1 level)) 7
                        \<and> max 0 (min 1 level) > round64 0.05
                     then fmul (round64 0.12) (fsub 1 (fmul (real i) (round64 0.1)))
                     else 0)
           \<and> fmul (round64 0.12) (fsub 1 (fmul (real i) (round64 0.1))) \<noteq> 0)"
proof -
  let ?e = "audio_run ops"
  have inv: "AudioEngine_inv ?e" by (rule audio_run_inv)
  from assms(1) obtain c where c: "ctx ?e = Some c" by auto
  from inv c obtain tg tf where tg: "tideGain ?e = Some tg" and tf: "tideFilter ?e = Some tf"
    and len: "length (chakraGains ?e) = 7"
    by (auto simp: AudioEngine_inv_def)
  have A: "\<exists>tg. tideGain (setResonance level ?e) = Some tg
             \<and> scheduledTarget (gain tg) =
                 Some (fadd (round64 0.15) (fmul (max 0 (min 1 level)) (round64 0.45)))"
    by (simp add: setResonance_tideGain [OF c assms(2) tg tf] scheduledTarget_setTargetAtTime)
  have B: "\<exists>tf. tideFilter (setResonance level ?e) = Some tf
             \<and> scheduledTarget (frequency tf) =
                 Some (fadd 300 (fmul (max 0 (min 1 level)) 1200))"
    by (simp add: setResonance_tideFilter [OF c assms(2) tg tf] scheduledTarget_setTargetAtTime)
  have C: "length (chakraGains (setResonance level ?e)) = 7"
    by (simp add: length_chakraGains_setResonance len)
  have D: "\<forall>i<7.
             scheduledTarget (gain (chakraGains (setResonance level ?e) ! i)) =
               Some (if real i \<le> fmul (max 0 (min 1 level)) 7
                        \<and> max 0 (min 1 level) > round64 0.05
                     then fmul (round64 0.12) (fsub 1 (fmul (real i) (round64 0.1)))
                     else 0)
           \<and> fmul (round64 0.12) (fsub 1 (fmul (real i) (round64 0.1))) \<noteq> 0"
  proof (intro allI impI)
    fix i :: nat
    assume i: "i < 7"
    then have "i < length (chakraGains ?e)" using len by simp
    from setResonance_chakra [OF c assms(2) this, of level] baseVol_nonzero [OF i]
    show "scheduledTarget (gain (chakraGains (setResonance level ?e) ! i)) =
               Some (if real i \<le> fmul (max 0 (min 1 level)) 7
                        \<and> max 0 (min 1 level) > round64 0.05
                     then fmul (round64 0.12) (fsub 1 (fmul (real i) (round64 0.1)))
                     else 0)
           \<and> fmul (round64 0.12) (fsub 1 (fmul (real i) (round64 0.1))) \<noteq> 0"
      unfolding baseVol_def by blast
  qed
  from A B C D show ?thesis by blast
qed

theorem setResonance_targets_witness:
  "ctx (audio_run [Init suspended_context]) \<noteq> None
   \<and> \<not> isMuted (audio_run [Init suspended_context])
   \<and> scheduledTarget (gain (chakraGains
         (setResonance (1 / 2) (audio_run [Init suspended_context])) ! 3))
       = Some (3026418949592973 / 2 ^ 55)
   \<and> scheduledTarget (gain (chakraGains
         (setResonance (1 / 2) (audio_run [Init suspended_context])) ! 4)) = Some 0"
proof -
  note t = setResonance_targets [OF initialised_engine [THEN conjunct1]
      initialised_engine [THEN conjunct2], of "1 / 2"]
  from t have all: "\<forall>i<7.
      scheduledTarget (gain (chakraGains
         (setResonance (1 / 2) (audio_run [Init suspended_context])) ! i)) =
        Some (if real i \<le> fmul (max 0 (min 1 (1 / 2))) 7
                 \<and> max 0 (min 1 (1 / 2)) > round64 0.05
              then baseVol i else 0)"
    unfolding baseVol_def by blast
  from all have "scheduledTarget (gain (chakraGains
         (setResonance (1 / 2) (audio_run [Init suspended_context])) ! 3))
       = Some (3026418949592973 / 2 ^ 55)"
    using threshold_half by (simp add: active_index_half baseVol_3)
  moreover from all have "scheduledTarget (gain (chakraGains
         (setResonance (1 / 2) (audio_run [Init suspended_context])) ! 4)) = Some 0"
    using threshold_half by (simp add: active_index_half)
  ultimately show ?thesis using initialised_engine by blast
qed

text \<open>
  C9. \<open>setResonance\<close> is safe for every real level: it has no failing branch, it uses
  the level only clamped to the unit interval, and on an engine without an
  \<open>AudioContext\<close> or on a muted engine it returns at once and leaves the engine, with
  every audio parameter, as it was.
\<close>

theorem setResonance_safe:
  "(ctx e = None \<or> isMuted e \<longrightarrow> setResonance level e = e)
   \<and> setResonance level e = setResonance (max 0 (min 1 level)) e
   \<and> 0 \<le> max 0 (min 1 level) \<and> max 0 (min 1 level) \<le> 1"
proof -
  have A: "ctx e = None \<or> isMuted e \<longrightarrow> setResonance level e = e"
    by (auto simp: setResonance_def split: option.splits)
  have idem: "max 0 (min 1 (max 0 (min 1 level))) = max 0 (min 1 level)"
    by (simp add: max_def min_def)
  have B: "setResonance level e = setResonance (max 0 (min 1 level)) e"
    unfolding setResonance_def idem ..
  have C: "0 \<le> max 0 (min 1 level) \<and> max 0 (min 1 level) \<le> 1"
    by simp
  from A B C show ?thesis by blast
qed

theorem setResonance_safe_witness:
  "ctx AudioEngine_new = None
   \<and> setResonance 5 AudioEngine_new = AudioEngine_new
   \<and> isMuted (audio_run [Init suspended_context, ToggleMute])
   \<and> setResonance (- 3) (audio_run [Init suspended_context, ToggleMute]) =
       audio_run [Init suspended_context, ToggleMute]"
  using setResonance_safe [of AudioEngine_new 5]
    setResonance_safe [of "audio_run [Init suspended_context, ToggleMute]" "- 3"]
    muted_engine
  by (simp add: AudioEngine_new_def)

section \<open>Properties of the sensor's cleanup\<close>

lemma stop_all:
  "foldl (\<lambda>acc track. acc\<lparr>stoppedTracks := insert track (stoppedTracks acc)\<rparr>) s stream
     = s\<lparr>stoppedTracks := set stream \<union> stoppedTracks s\<rparr>"
  by (induction stream arbitrary: s) simp_all

text \<open>
  While the ref is attached, as when the video is disabled, the cleanup stops every track
  of the stream on the element. On either path it cancels the request that
  \<open>requestRef.current\<close> records.
\<close>

lemma disableVideo_stops_every_track:
  assumes "videoRefAttached s" and "srcObject (videoNode s) = Some stream"
  shows "set stream \<subseteq> stoppedTracks (disableVideo s)"
  using assms by (auto simp: disableVideo_def cleanup_def stop_all Let_def split: option.splits)

lemma cleanup_cancels_request:
  assumes "requestRef s = Some handle"
  shows "handle \<notin> pendingFrames (disableVideo s)" and "handle \<notin> pendingFrames (unmount s)"
  using assms
  by (auto simp: disableVideo_def unmount_def cleanup_def stop_all Let_def split: option.splits)

text \<open>On unmount the cleanup calls \<open>stop()\<close> on no track, whatever the sensor holds.\<close>

lemma unmount_stops_no_track: "stoppedTracks (unmount s) = stoppedTracks s"
  by (simp add: unmount_def cleanup_def Let_def split: option.splits)

text \<open>
  C7. The claim holds of the path on which the video is disabled and fails on unmount.
  On the sensor at work (the stream of tracks 0 and 1 on the element, request 2
  pending): disabling the video stops both tracks and cancels the request; unmounting
  cancels the request and stops no track, so the camera stream is not released.
\<close>

theorem cleanup_on_unmount:
  "srcObject (videoNode sensing) = Some [0, 1]
   \<and> requestRef sensing = Some 2 \<and> pendingFrames sensing = {2}
   \<and> stoppedTracks (disableVideo sensing) = {0, 1}
   \<and> pendingFrames (disableVideo sensing) = {}
   \<and> stoppedTracks (unmount sensing) = {}
   \<and> pendingFrames (unmount sensing) = {}"
  by (auto simp: sensing_def predictWebcam_def startCamera_def landmarkerLoaded_def
        GestureHandler_mounted_def disableVideo_def unmount_def cleanup_def Let_def)

end
